theory Spec2Isabelle
  imports Main "HOL-Library.Sublist"
begin

section \<open>Basic types\<close>

text \<open>
  File paths and file contents are byte strings. A \<open>QUuid\<close> is a number, the null
  uuid being \<open>0\<close>; a point in time (always UTC in the source) is a number as well.

  The functions are modelled as a release build runs them: \<open>Q_ASSERT\<close> is compiled
  out, and signals are not followed except where a slot changes the data the
  functions below read.
\<close>

type_synonym path = string
type_synonym bytes = string
type_synonym uuid = nat
type_synonym time = nat
type_synonym image = string

definition isNull :: "uuid \<Rightarrow> bool" where
  "isNull u = (u = 0)"

text \<open>\<open>struct DeletedObject\<close> of Database.h.\<close>

record DeletedObject =
  uuid :: uuid
  deletionTime :: time

text \<open>
  A \<open>CompositeKey\<close> is the list of the raw bytes of its components;
  \<open>QSharedPointer<CompositeKey>::create()\<close> is the key without components.
\<close>

type_synonym CompositeKey = "bytes list"

text \<open>
  The part of \<open>Metadata\<close> that Database.cpp and Entry.cpp read and write.
\<close>

record Metadata =
  recycleBinEnabled :: bool
  recycleBin :: "nat option"
  customIcons :: "uuid \<rightharpoonup> image"
  historyMaxItems :: int
  historyMaxSize :: int
  masterKeyChanged :: time

text \<open>
  The members of \<open>Database\<close> and of its \<open>m_data\<close>. A \<open>PasswordKey\<close> is its raw key,
  the empty byte string being the key that was never set. \<open>kdf\<close> is the address of
  the shared \<open>Kdf\<close> object, \<open>rootGroup\<close> the address of the root group, and
  \<open>watched\<close> the path the file watcher is started on (\<open>None\<close> when stopped).
\<close>

record Database =
  filePath :: path
  isReadOnly :: bool
  transformedMasterKey :: bytes
  kdf :: nat
  key :: "CompositeKey option"
  hasKey :: bool
  modified :: bool
  watched :: "path option"
  deletedObjects :: "DeletedObject list"
  rootGroup :: nat
  metadata :: Metadata

section \<open>Saving (Database.cpp)\<close>

type_synonym filesystem = "path \<rightharpoonup> bytes"

text \<open>
  The message a failed save stores through its \<open>error\<close> argument. The texts of the
  source are constructors; the texts that Qt or the writer supply are carried along.
\<close>

datatype save_error =
    NoValidFile
  | ReadOnlyFile
  | UnmergedChanges
  | WriteReadOnly
  | WriterFailed string
  | KeyNotTransformed
  | FileError string
  | FileErrorWithBackup string path


text \<open>
  What the collaborators outside Database.cpp do during one save: the answer of the
  file watcher, the canonical form of a path, the result of the writer (its error,
  the bytes it wrote, the database it leaves behind), and for each call into Qt's
  file classes whether that call goes through.
\<close>

record io =
  hasSameFileChecksum :: bool
  canonicalFilePath :: "path \<Rightarrow> path"
  writer :: "Database \<Rightarrow> string option \<times> bytes \<times> Database"
  saveFileOpen :: bool
  saveFileCommit :: bool
  saveFileError :: string
  tempFileOpen :: bool
  tempFileName :: path
  tempFileError :: string
  backupRemove :: bool
  backupCopy :: bool
  targetRemove :: bool
  tempRename :: bool
  restoreRemove :: bool
  restoreCopy :: bool

text \<open>
  \<open>QFile::remove\<close>, \<open>QFile::copy\<close> (which never overwrites) and \<open>QFile::rename\<close>
  (which fails when the new name exists). A call that fails leaves the files as
  they were.
\<close>

definition QFile_remove :: "bool \<Rightarrow> path \<Rightarrow> filesystem \<Rightarrow> bool \<times> filesystem" where
  "QFile_remove ok p fs =
     (if ok \<and> fs p \<noteq> None then (True, fs(p := None)) else (False, fs))"

definition QFile_copy :: "bool \<Rightarrow> path \<Rightarrow> path \<Rightarrow> filesystem \<Rightarrow> bool \<times> filesystem" where
  "QFile_copy ok src dst fs =
     (case fs src of
        None \<Rightarrow> (False, fs)
      | Some b \<Rightarrow> if ok \<and> fs dst = None then (True, fs(dst \<mapsto> b)) else (False, fs))"

definition QFile_rename :: "bool \<Rightarrow> path \<Rightarrow> path \<Rightarrow> filesystem \<Rightarrow> bool \<times> filesystem" where
  "QFile_rename ok src dst fs =
     (case fs src of
        None \<Rightarrow> (False, fs)
      | Some b \<Rightarrow>
          if ok \<and> fs dst = None then (True, (fs(src := None))(dst \<mapsto> b)) else (False, fs))"

text \<open>
  The name of the backup file in \<open>backupDatabase\<close>: \<open>.old\<close> goes before the part
  that \<open>(\.[^.]+)$\<close> matches, the last dot of the path with what follows it, when
  something follows it; the class \<open>[^.]\<close> takes line feeds too.
\<close>

definition backupFilePath :: "path \<Rightarrow> path" where
  "backupFilePath p =
     (let ext = rev (takeWhile (\<lambda>c. c \<noteq> CHR ''.'') (rev p))
      in if ext \<noteq> [] \<and> length ext < length p
         then take (length p - length ext - 1) p @ ''.old'' @ CHR ''.'' # ext
         else p @ ''.old'')"

definition backupDatabase :: "io \<Rightarrow> path \<Rightarrow> filesystem \<Rightarrow> bool \<times> filesystem" where
  "backupDatabase env p fs =
     (let backupPath = backupFilePath p;
          (removed, fs1) = QFile_remove (backupRemove env) backupPath fs
      in QFile_copy (backupCopy env) p backupPath fs1)"

text \<open>
  The name of the backup file in \<open>restoreDatabase\<close>, which reads the two groups
  of \<open>^(.*?)(\.[^.]+)?$\<close>. The dot of the first group stops at a line feed and the
  \<open>$\<close> holds at the end of the path or before a line feed that ends it. So the
  path is cut at its last dot as above when no line feed comes before that dot;
  else a path without line feed is taken whole; else a path whose only line feed
  is its last character is taken without it; and on any other path nothing
  matches, both groups are empty and the name is \<open>.old\<close>.
\<close>

definition restoreFilePath :: "path \<Rightarrow> path" where
  "restoreFilePath p =
     (let ext = rev (takeWhile (\<lambda>c. c \<noteq> CHR ''.'') (rev p));
          stem = take (length p - length ext - 1) p
      in if ext \<noteq> [] \<and> length ext < length p \<and> CHR 0x0A \<notin> set stem
         then stem @ ''.old'' @ CHR ''.'' # ext
         else if CHR 0x0A \<notin> set p then p @ ''.old''
         else if CHR 0x0A \<notin> set (butlast p) then butlast p @ ''.old''
         else ''.old'')"

definition restoreDatabase :: "io \<Rightarrow> path \<Rightarrow> filesystem \<Rightarrow> bool \<times> filesystem" where
  "restoreDatabase env p fs =
     (let backupPath = restoreFilePath p
      in if fs backupPath \<noteq> None
         then (let (removed, fs1) = QFile_remove (restoreRemove env) p fs
               in QFile_copy (restoreCopy env) backupPath p fs1)
         else (False, fs))"

text \<open>
  \<open>Database::writeDatabase\<close>: the result, the message, the bytes that reached the
  device and the database after the writer ran.
\<close>

definition writeDatabase :: "io \<Rightarrow> Database \<Rightarrow> bool \<times> save_error option \<times> bytes \<times> Database" where
  "writeDatabase env db =
     (if isReadOnly db then (False, Some WriteReadOnly, [], db)
      else
        let oldTransformedKey = (if hasKey db then transformedMasterKey db else []);
            (werr, out, db1) = writer env db
        in case werr of
             Some msg \<Rightarrow> (False, Some (WriterFailed msg), out, db1)
           | None \<Rightarrow>
               let newKey = transformedMasterKey db1
               in if newKey = [] \<or> newKey = oldTransformedKey
                  then (False, Some KeyNotTransformed, out, db1)
                  else (True, None, out, db1))"

text \<open>
  \<open>Database::performSave\<close>. A \<open>QSaveFile\<close> keeps what is written apart from the
  target until \<open>commit\<close> puts it in place in one step. A \<open>QTemporaryFile\<close> is a file
  of its own, named \<open>tempFileName\<close>, which its destructor removes on the way out
  unless \<open>setAutoRemove(false)\<close> was called.
\<close>

definition performSave ::
  "io \<Rightarrow> path \<Rightarrow> bool \<Rightarrow> bool \<Rightarrow> Database \<times> filesystem
     \<Rightarrow> bool \<times> save_error option \<times> Database \<times> filesystem" where
  "performSave env p atomic backup s =
     (let (db, fs) = s in
      if atomic then
        (if saveFileOpen env then
           (let (ok, err, out, db1) = writeDatabase env db in
            if \<not> ok then (False, err, db1, fs)
            else
              let fs1 = (if backup then snd (backupDatabase env p fs) else fs)
              in if saveFileCommit env then (True, None, db1, fs1(p \<mapsto> out))
                 else (False, Some (FileError (saveFileError env)), db1, fs1))
         else (False, Some (FileError (saveFileError env)), db, fs))
      else
        (if tempFileOpen env then
           (let tmp = tempFileName env;
                (ok, err, out, db1) = writeDatabase env db;
                fs1 = fs(tmp \<mapsto> out)
            in if \<not> ok then (False, err, db1, fs1(tmp := None))
               else
                 let fs2 = (if backup then snd (backupDatabase env p fs1) else fs1);
                     (removed, fs3) = QFile_remove (targetRemove env) p fs2;
                     (renamed, fs4) = QFile_rename (tempRename env) tmp p fs3
                 in if renamed then (True, None, db1, fs4)
                    else
                      let (restored, fs5) =
                            (if backup then restoreDatabase env p fs4 else (False, fs4))
                      in if \<not> backup \<or> \<not> restored
                         then (False, Some (FileErrorWithBackup (tempFileError env) tmp), db1, fs5)
                         else (False, Some (FileError (tempFileError env)), db1, fs5(tmp := None)))
         else (False, Some (FileError (tempFileError env)), db, fs)))"

definition markAsModified :: "Database \<Rightarrow> Database" where
  "markAsModified db = db\<lparr>modified := True\<rparr>"

definition markAsClean :: "Database \<Rightarrow> Database" where
  "markAsClean db = db\<lparr>modified := False\<rparr>"

definition setFilePath :: "path \<Rightarrow> Database \<Rightarrow> Database" where
  "setFilePath p db =
     (if p \<noteq> filePath db then db\<lparr>filePath := p, watched := None\<rparr> else db)"

text \<open>\<open>Database::saveAs\<close> and \<open>Database::save\<close>.\<close>

definition saveAs ::
  "io \<Rightarrow> path \<Rightarrow> bool \<Rightarrow> bool \<Rightarrow> Database \<times> filesystem
     \<Rightarrow> bool \<times> save_error option \<times> Database \<times> filesystem" where
  "saveAs env p atomic backup s =
     (let (db, fs) = s in
      if p = filePath db \<and> isReadOnly db then (False, Some ReadOnlyFile, db, fs)
      else if p = filePath db \<and> \<not> hasSameFileChecksum env
      then (False, Some UnmergedChanges, db, fs)
      else
        let db1 = db\<lparr>isReadOnly := False, watched := None\<rparr>;
            canonical = (if fs p \<noteq> None then canonicalFilePath env p else p);
            (ok, err, db2, fs') = performSave env canonical atomic backup (db1, fs)
        in if ok
           then (ok, err, (setFilePath p (markAsClean db2))\<lparr>watched := Some canonical\<rparr>, fs')
           else (ok, err, markAsModified db2, fs'))"


section \<open>Keys (Database.cpp)\<close>

text \<open>
  A \<open>Kdf\<close> object: its seed and the rest of its configuration. The database and
  its callers share such objects through \<open>QSharedPointer\<close>, so they live in a
  store indexed by address, and \<open>kdf\<close> of a database is an address.
\<close>

record Kdf =
  kdfSeed :: bytes
  kdfParameters :: bytes

type_synonym kdfs = "nat \<Rightarrow> Kdf"

text \<open>
  What the key classes and the clock do: \<open>CompositeKey::transform\<close> (\<open>None\<close> when
  it fails), the seed that \<open>Kdf::randomizeSeed\<close> draws, and
  \<open>Clock::currentDateTimeUtc\<close>.
\<close>

record keyenv =
  transform :: "CompositeKey \<Rightarrow> Kdf \<Rightarrow> bytes option"
  freshSeed :: bytes
  currentDateTimeUtc :: time

definition randomizeSeed :: "keyenv \<Rightarrow> Kdf \<Rightarrow> Kdf" where
  "randomizeSeed env k = k\<lparr>kdfSeed := freshSeed env\<rparr>"

text \<open>\<open>Database::setKey\<close>; \<open>None\<close> is the null pointer.\<close>

definition setKey ::
  "keyenv \<Rightarrow> CompositeKey option \<Rightarrow> bool \<Rightarrow> bool \<Rightarrow> bool \<Rightarrow> Database \<times> kdfs
     \<Rightarrow> bool \<times> Database \<times> kdfs" where
  "setKey env newKey updateChangedTime updateTransformSalt transformKey s =
     (let (db, ks) = s in
      case newKey of
        None \<Rightarrow> (True, db\<lparr>key := None, transformedMasterKey := [], hasKey := False\<rparr>, ks)
      | Some k \<Rightarrow>
          let ks1 = (if updateTransformSalt
                     then ks(kdf db := randomizeSeed env (ks (kdf db))) else ks);
              oldTransformedMasterKey = (if hasKey db then transformedMasterKey db else []);
              transformed = (if \<not> transformKey then Some oldTransformedMasterKey
                             else transform env k (ks1 (kdf db)))
          in case transformed of
               None \<Rightarrow> (False, db, ks1)
             | Some t \<Rightarrow>
                 let db1 = db\<lparr>key := Some k,
                              transformedMasterKey :=
                                (if t \<noteq> [] then t else transformedMasterKey db),
                              hasKey := True\<rparr>;
                     db2 = (if updateChangedTime
                            then db1\<lparr>metadata :=
                                   (metadata db1)\<lparr>masterKeyChanged := currentDateTimeUtc env\<rparr>\<rparr>
                            else db1)
                 in (True,
                     if oldTransformedMasterKey \<noteq> transformedMasterKey db2
                     then markAsModified db2 else db2,
                     ks1))"

text \<open>\<open>Database::changeKdf\<close>; the argument is the address of the new \<open>Kdf\<close>.\<close>

definition changeKdf :: "keyenv \<Rightarrow> nat \<Rightarrow> Database \<times> kdfs \<Rightarrow> bool \<times> Database \<times> kdfs" where
  "changeKdf env newKdf s =
     (let (db, ks) = s;
          ks1 = ks(newKdf := randomizeSeed env (ks newKdf));
          k = (case key db of None \<Rightarrow> [] | Some k \<Rightarrow> k);
          db1 = db\<lparr>key := Some k\<rparr>
      in case transform env k (ks1 newKdf) of
           None \<Rightarrow> (False, db1, ks1)
         | Some t \<Rightarrow>
             (True, markAsModified (db1\<lparr>kdf := newKdf, transformedMasterKey := t\<rparr>), ks1))"

section \<open>Groups and entries (Entry.cpp, Database.cpp)\<close>

datatype TriState = Inherit | Enable | Disable

text \<open>
  Groups, entries and databases point at each other, so they live in stores
  indexed by address. A group knows its parent, its database (\<open>m_db\<close>), its
  subgroups and its entries; an entry knows its group and owns its history, a
  list of addresses of entries without a group.

  Of an entry's attributes, attachments, auto-type associations and custom data the
  record keeps what Entry.cpp asks of them: the attribute values, and the four
  sizes that \<open>truncateHistory\<close> adds up. \<open>e_totp\<close> is the code \<open>totp()\<close> returns.
\<close>

record Group =
  g_uuid :: uuid
  g_parent :: "nat option"
  g_db :: "nat option"
  g_name :: string
  g_iconNumber :: nat
  g_searchingEnabled :: TriState
  g_autoTypeEnabled :: TriState
  g_children :: "nat list"
  g_entries :: "nat list"

record Entry =
  e_uuid :: uuid
  e_group :: "nat option"
  e_iconNumber :: nat
  e_customIcon :: uuid
  e_updateTimeinfo :: bool
  e_locationChanged :: time
  e_attributes :: "string \<rightharpoonup> string"
  e_tags :: string
  e_totp :: string
  e_attributesSize :: int
  e_associationsSize :: int
  e_attachmentsSize :: int
  e_dataSize :: int
  e_history :: "nat list"

text \<open>
  \<open>nextAddress\<close> is where \<open>new Group()\<close> puts its object, \<open>nextUuid\<close> what
  \<open>QUuid::createUuid()\<close> returns, \<open>now\<close> what \<open>Clock::currentDateTimeUtc()\<close> returns.
\<close>

record world =
  databases :: "nat \<rightharpoonup> Database"
  groups :: "nat \<rightharpoonup> Group"
  entries :: "nat \<rightharpoonup> Entry"
  nextAddress :: nat
  nextUuid :: uuid
  now :: time

text \<open>\<open>Database::addDeletedObject(const QUuid&)\<close>: the tombstone is appended.\<close>

definition addDeletedObject :: "nat \<Rightarrow> uuid \<Rightarrow> world \<Rightarrow> world" where
  "addDeletedObject d u w =
     (case databases w d of
        None \<Rightarrow> w
      | Some db \<Rightarrow>
          w\<lparr>databases := (databases w)(d \<mapsto>
               db\<lparr>deletedObjects := deletedObjects db @ [\<lparr>uuid = u, deletionTime = now w\<rparr>]\<rparr>)\<rparr>)"

text \<open>
  Modelled from the spec: the members of \<open>Group\<close> and \<open>Metadata\<close> that Entry.cpp and
  Database.cpp call; Group.cpp and Metadata.cpp are not part of the sources at
  hand. A group is owned by its parent, an entry is listed by its group, and the
  operations "update ownership, not just a pointer": \<open>removeEntry\<close> takes the entry
  out of the group's list, \<open>addEntry\<close> appends it, \<open>setParent\<close> moves the group
  to the end of the new parent's subgroups and gives it the parent's database,
  \<open>database\<close> is the database the group is attached to. The custom icon store of
  the metadata is a map from uuids to images.
\<close>

definition Group_database :: "world \<Rightarrow> nat \<Rightarrow> nat option" where
  "Group_database w g = (case groups w g of None \<Rightarrow> None | Some gr \<Rightarrow> g_db gr)"

definition Group_update :: "nat \<Rightarrow> (Group \<Rightarrow> Group) \<Rightarrow> world \<Rightarrow> world" where
  "Group_update g f w =
     (case groups w g of None \<Rightarrow> w | Some gr \<Rightarrow> w\<lparr>groups := (groups w)(g \<mapsto> f gr)\<rparr>)"

definition Group_removeEntry :: "nat \<Rightarrow> nat \<Rightarrow> world \<Rightarrow> world" where
  "Group_removeEntry g e w = Group_update g (\<lambda>gr. gr\<lparr>g_entries := removeAll e (g_entries gr)\<rparr>) w"

definition Group_addEntry :: "nat \<Rightarrow> nat \<Rightarrow> world \<Rightarrow> world" where
  "Group_addEntry g e w = Group_update g (\<lambda>gr. gr\<lparr>g_entries := g_entries gr @ [e]\<rparr>) w"

definition Group_setParent :: "nat \<Rightarrow> nat \<Rightarrow> world \<Rightarrow> world" where
  "Group_setParent g parent w =
     (case groups w g of
        None \<Rightarrow> w
      | Some gr \<Rightarrow>
          let w1 = (case g_parent gr of
                      None \<Rightarrow> w
                    | Some old \<Rightarrow>
                        Group_update old (\<lambda>p. p\<lparr>g_children := removeAll g (g_children p)\<rparr>) w);
              w2 = Group_update g (\<lambda>x. x\<lparr>g_parent := Some parent,
                                          g_db := Group_database w1 parent\<rparr>) w1
          in Group_update parent (\<lambda>p. p\<lparr>g_children := g_children p @ [g]\<rparr>) w2)"

definition containsCustomIcon :: "world \<Rightarrow> nat \<Rightarrow> uuid \<Rightarrow> bool" where
  "containsCustomIcon w d u =
     (case databases w d of None \<Rightarrow> False | Some db \<Rightarrow> customIcons (metadata db) u \<noteq> None)"

definition addCustomIcon :: "nat \<Rightarrow> uuid \<Rightarrow> image option \<Rightarrow> world \<Rightarrow> world" where
  "addCustomIcon d u img w =
     (case databases w d of
        None \<Rightarrow> w
      | Some db \<Rightarrow>
          w\<lparr>databases := (databases w)(d \<mapsto>
               db\<lparr>metadata := (metadata db)\<lparr>customIcons := (customIcons (metadata db))(u := img)\<rparr>\<rparr>)\<rparr>)"

definition setRecycleBin :: "nat \<Rightarrow> nat \<Rightarrow> world \<Rightarrow> world" where
  "setRecycleBin d g w =
     (case databases w d of
        None \<Rightarrow> w
      | Some db \<Rightarrow>
          w\<lparr>databases := (databases w)(d \<mapsto>
               db\<lparr>metadata := (metadata db)\<lparr>recycleBin := Some g\<rparr>\<rparr>)\<rparr>)"

text \<open>
  Modelled from the spec: what \<open>new Group()\<close> holds (no parent, no database, nothing
  in it, searching and auto-type inherited) and the "fixed icon" of the recycle
  bin, \<open>Group::RecycleBinIconNumber\<close>; both are set in Group.cpp.
\<close>

definition newGroup :: Group where
  "newGroup = \<lparr>g_uuid = 0, g_parent = None, g_db = None, g_name = [], g_iconNumber = 48,
     g_searchingEnabled = Inherit, g_autoTypeEnabled = Inherit, g_children = [], g_entries = []\<rparr>"

definition RecycleBinIconNumber :: nat where
  "RecycleBinIconNumber = 43"

text \<open>
  The custom icon of an entry, \<open>icon()\<close> for an entry whose \<open>iconUuid()\<close> is not
  null: it is read from the metadata of the entry's database.
\<close>

definition customIcon :: "world \<Rightarrow> nat \<Rightarrow> uuid \<Rightarrow> image option" where
  "customIcon w d u = (case databases w d of None \<Rightarrow> None | Some db \<Rightarrow> customIcons (metadata db) u)"

text \<open>\<open>Entry::setGroup\<close>.\<close>

definition setGroup :: "nat \<Rightarrow> nat \<Rightarrow> world \<Rightarrow> world" where
  "setGroup e g w =
     (case entries w e of
        None \<Rightarrow> w
      | Some en \<Rightarrow>
          if e_group en = Some g then w
          else
            let w1 =
                  (case e_group en of
                     None \<Rightarrow> w
                   | Some old \<Rightarrow>
                       let wa = Group_removeEntry old e w
                       in (case Group_database wa old of
                             None \<Rightarrow> wa
                           | Some src \<Rightarrow>
                               if Group_database wa g \<noteq> Some src
                               then
                                 let wb = addDeletedObject src (e_uuid en) wa
                                 in (case Group_database wb g of
                                       None \<Rightarrow> wb
                                     | Some dst \<Rightarrow>
                                         if \<not> isNull (e_customIcon en)
                                            \<and> containsCustomIcon wb src (e_customIcon en)
                                            \<and> \<not> containsCustomIcon wb dst (e_customIcon en)
                                         then addCustomIcon dst (e_customIcon en)
                                                (customIcon wb src (e_customIcon en)) wb
                                         else wb)
                               else wa));
                en1 = en\<lparr>e_group := Some g\<rparr>;
                w2 = Group_addEntry g e (w1\<lparr>entries := (entries w1)(e \<mapsto> en1)\<rparr>)
            in if e_updateTimeinfo en
               then w2\<lparr>entries := (entries w2)(e \<mapsto> en1\<lparr>e_locationChanged := now w2\<rparr>)\<rparr>
               else w2)"

text \<open>
  \<open>Entry::~Entry\<close>: the entry leaves its group, a tombstone is recorded when the
  group is attached to a database, and the entry and its history items (which
  have neither a group nor a history of their own) are gone.
\<close>

definition deleteEntry :: "nat \<Rightarrow> world \<Rightarrow> world" where
  "deleteEntry e w =
     (case entries w e of
        None \<Rightarrow> w
      | Some en \<Rightarrow>
          let w1 =
                (case e_group en of
                   None \<Rightarrow> w
                 | Some g \<Rightarrow>
                     let wa = Group_removeEntry g e w
                     in (case Group_database wa g of
                           None \<Rightarrow> wa
                         | Some d \<Rightarrow> addDeletedObject d (e_uuid en) wa))
          in w1\<lparr>entries := fold (\<lambda>h m. m(h := None)) (e_history en) ((entries w1)(e := None))\<rparr>)"

text \<open>\<open>Database::createRecycleBin\<close> and \<open>Database::recycleEntry\<close>.\<close>

definition createRecycleBin :: "nat \<Rightarrow> world \<Rightarrow> world" where
  "createRecycleBin d w =
     (case databases w d of
        None \<Rightarrow> w
      | Some db \<Rightarrow>
          let bin = nextAddress w;
              w1 = w\<lparr>groups := (groups w)(bin \<mapsto> newGroup), nextAddress := Suc bin\<rparr>;
              w2 = Group_update bin (\<lambda>g. g\<lparr>g_uuid := nextUuid w1\<rparr>) (w1\<lparr>nextUuid := Suc (nextUuid w1)\<rparr>);
              w3 = Group_setParent bin (rootGroup db) w2;
              w4 = Group_update bin (\<lambda>g. g\<lparr>g_name := ''Recycle Bin''\<rparr>) w3;
              w5 = Group_update bin (\<lambda>g. g\<lparr>g_iconNumber := RecycleBinIconNumber\<rparr>) w4;
              w6 = Group_update bin (\<lambda>g. g\<lparr>g_searchingEnabled := Disable\<rparr>) w5;
              w7 = Group_update bin (\<lambda>g. g\<lparr>g_autoTypeEnabled := Disable\<rparr>) w6
          in setRecycleBin d bin w7)"

definition recycleEntry :: "nat \<Rightarrow> nat \<Rightarrow> world \<Rightarrow> world" where
  "recycleEntry d e w =
     (case databases w d of
        None \<Rightarrow> w
      | Some db \<Rightarrow>
          if recycleBinEnabled (metadata db) then
            (let w1 = (if recycleBin (metadata db) = None then createRecycleBin d w else w)
             in case databases w1 d of
                  None \<Rightarrow> w1
                | Some db1 \<Rightarrow>
                    (case recycleBin (metadata db1) of
                       None \<Rightarrow> w1
                     | Some bin \<Rightarrow> setGroup e bin w1))
          else deleteEntry e w)"

section \<open>History (Entry.cpp)\<close>



















section \<open>Placeholders (Entry.cpp)\<close>

text \<open>
  Strings are held as bytes in UTF-8. The braces, the colon and the letters of
  the placeholder names are ASCII, so matching, cutting and replacing give the
  same result on bytes as on the characters of a \<open>QString\<close>. \<open>toUpper\<close> and
  \<open>toLower\<close> convert the ASCII letters and leave every other byte alone.
\<close>

text \<open>
  The enumerations \<open>Entry::PlaceholderType\<close> and \<open>EntryReferenceType\<close>; the
  values of the second carry the prefix \<open>Ref\<close>, which keeps them apart from
  those of the first.
\<close>

datatype PlaceholderType =
    NotPlaceholder | Unknown | Title | UserName | Password | Notes | Totp | Url
  | UrlWithoutScheme | UrlScheme | UrlHost | UrlPort | UrlPath | UrlQuery | UrlFragment
  | UrlUserInfo | UrlUserName | UrlPassword | Reference | CustomAttribute

datatype EntryReferenceType =
    RefUnknown | RefTitle | RefUserName | RefPassword | RefUrl | RefNotes | RefQUuid
  | RefCustomAttributes

definition toUpper :: "string \<Rightarrow> string" where
  "toUpper s =
     map (\<lambda>c. case map_of (zip ''abcdefghijklmnopqrstuvwxyz'' ''ABCDEFGHIJKLMNOPQRSTUVWXYZ'') c of
               None \<Rightarrow> c | Some u \<Rightarrow> u) s"

definition toLower :: "string \<Rightarrow> string" where
  "toLower s =
     map (\<lambda>c. case map_of (zip ''ABCDEFGHIJKLMNOPQRSTUVWXYZ'' ''abcdefghijklmnopqrstuvwxyz'') c of
               None \<Rightarrow> c | Some l \<Rightarrow> l) s"

text \<open>\<open>Entry::referenceType\<close>.\<close>

definition referenceType :: "string \<Rightarrow> EntryReferenceType" where
  "referenceType referenceStr =
     (let referenceLowerStr = toLower referenceStr
      in if referenceLowerStr = ''t'' then RefTitle
         else if referenceLowerStr = ''u'' then RefUserName
         else if referenceLowerStr = ''p'' then RefPassword
         else if referenceLowerStr = ''a'' then RefUrl
         else if referenceLowerStr = ''n'' then RefNotes
         else if referenceLowerStr = ''i'' then RefQUuid
         else if referenceLowerStr = ''o'' then RefCustomAttributes
         else RefUnknown)"

text \<open>The static map \<open>placeholders\<close> of \<open>Entry::placeholderType\<close>.\<close>

definition placeholders :: "(string \<times> PlaceholderType) list" where
  "placeholders =
     [(''{TITLE}'', Title), (''{USERNAME}'', UserName), (''{PASSWORD}'', Password),
      (''{NOTES}'', Notes), (''{TOTP}'', Totp), (''{URL}'', Url),
      (''{URL:RMVSCM}'', UrlWithoutScheme), (''{URL:WITHOUTSCHEME}'', UrlWithoutScheme),
      (''{URL:SCM}'', UrlScheme), (''{URL:SCHEME}'', UrlScheme), (''{URL:HOST}'', UrlHost),
      (''{URL:PORT}'', UrlPort), (''{URL:PATH}'', UrlPath), (''{URL:QUERY}'', UrlQuery),
      (''{URL:FRAGMENT}'', UrlFragment), (''{URL:USERINFO}'', UrlUserInfo),
      (''{URL:USERNAME}'', UrlUserName), (''{URL:PASSWORD}'', UrlPassword)]"

text \<open>
  \<open>QString::startsWith\<close>, \<open>QString::endsWith\<close> and \<open>Entry::placeholderType\<close>,
  which looks the upper-case form of its argument up in \<open>placeholders\<close>.
\<close>

definition startsWith :: "string \<Rightarrow> string \<Rightarrow> bool" where
  "startsWith s p = (take (length p) s = p)"

definition endsWith :: "string \<Rightarrow> char \<Rightarrow> bool" where
  "endsWith s c = (s \<noteq> [] \<and> last s = c)"

definition placeholderType :: "string \<Rightarrow> PlaceholderType" where
  "placeholderType placeholder =
     (if \<not> startsWith placeholder ''{'' \<or> \<not> endsWith placeholder CHR ''}'' then NotPlaceholder
      else if startsWith placeholder ''{S:'' then CustomAttribute
      else if startsWith placeholder ''{REF:'' then Reference
      else (case map_of placeholders (toUpper placeholder) of
              None \<Rightarrow> Unknown
            | Some t \<Rightarrow> t))"

text \<open>
  \<open>EntryAttributes::value\<close> gives the empty string for a key that is not there.
  The default keys are \<open>Title\<close>, \<open>UserName\<close>, \<open>Password\<close>, \<open>URL\<close> and \<open>Notes\<close>.
\<close>

definition attributeValue :: "Entry \<Rightarrow> string \<Rightarrow> string" where
  "attributeValue e k = (case e_attributes e k of None \<Rightarrow> [] | Some v \<Rightarrow> v)"

definition title :: "Entry \<Rightarrow> string" where "title e = attributeValue e ''Title''"
definition username :: "Entry \<Rightarrow> string" where "username e = attributeValue e ''UserName''"
definition password :: "Entry \<Rightarrow> string" where "password e = attributeValue e ''Password''"
definition url :: "Entry \<Rightarrow> string" where "url e = attributeValue e ''URL''"
definition notes' :: "Entry \<Rightarrow> string" where "notes' e = attributeValue e ''Notes''"

text \<open>
  What the resolution asks of code outside Entry.cpp: the search of the group
  tree of the entry's database (\<open>Group::findEntryBySearchTerm\<close> on the root
  group, \<open>None\<close> for no entry), \<open>EntryAttributes::matchReference\<close> (the wanted
  field, the field to search in and the text to search for), the parts of a
  \<open>QUrl\<close>, and \<open>Tools::uuidToHex\<close>. The resolution works on entries that are
  attached to a group of a database, as \<open>resolveReferencePlaceholderRecursive\<close>
  asserts; the entries the search returns belong to the same database, so one
  \<open>resolver\<close> serves them all.
\<close>

record resolver =
  findEntryBySearchTerm :: "string \<Rightarrow> EntryReferenceType \<Rightarrow> Entry option"
  matchReference :: "string \<Rightarrow> (string \<times> string \<times> string) option"
  urlPart :: "string \<Rightarrow> PlaceholderType \<Rightarrow> string"
  uuidToHex :: "uuid \<Rightarrow> string"

text \<open>
  The tokens that the loop of \<open>resolveMultiplePlaceholdersRecursive\<close> visits: the
  matches of \<open>\{[^\}]+\}\<close> in the string, from left to right, each search
  starting where the last match ended. A match starts at an opening brace that is
  followed by at least one character other than the closing brace, and ends at
  the next closing brace. The first argument is the match begun so far.
\<close>

fun scanPlaceholders :: "string option \<Rightarrow> string \<Rightarrow> string list" where
  "scanPlaceholders None [] = []"
| "scanPlaceholders None (c # cs) =
     (if c = CHR ''{'' then scanPlaceholders (Some [c]) cs else scanPlaceholders None cs)"
| "scanPlaceholders (Some found) [] = []"
| "scanPlaceholders (Some found) (c # cs) =
     (if c = CHR ''}''
      then (if found = ''{'' then scanPlaceholders None cs
            else (found @ [c]) # scanPlaceholders None cs)
      else scanPlaceholders (Some (found @ [c])) cs)"

text \<open>
  \<open>QString::replace(before, after)\<close>: every occurrence of the first string, from
  left to right, gives way to the second. The tokens replaced here are never
  empty.
\<close>

function replace :: "string \<Rightarrow> string \<Rightarrow> string \<Rightarrow> string" where
  "replace sought substitute s =
     (if sought = [] \<or> s = [] then s
      else if startsWith s sought
      then substitute @ replace sought substitute (drop (length sought) s)
      else hd s # replace sought substitute (tl s))"
  by pat_completeness auto
termination
  by (relation "measure (\<lambda>(sought, substitute, s). length s)") (auto simp: startsWith_def)

text \<open>\<open>Entry::referenceFieldValue\<close> and \<open>Entry::resolveUrlPlaceholder\<close>.\<close>

definition referenceFieldValue :: "resolver \<Rightarrow> Entry \<Rightarrow> EntryReferenceType \<Rightarrow> string" where
  "referenceFieldValue r e t =
     (case t of
        RefTitle \<Rightarrow> title e
      | RefUserName \<Rightarrow> username e
      | RefPassword \<Rightarrow> password e
      | RefUrl \<Rightarrow> url e
      | RefNotes \<Rightarrow> notes' e
      | RefQUuid \<Rightarrow> uuidToHex r (e_uuid e)
      | _ \<Rightarrow> [])"

definition isUrlPart :: "PlaceholderType \<Rightarrow> bool" where
  "isUrlPart t = (t \<in> {UrlWithoutScheme, UrlScheme, UrlHost, UrlPort, UrlPath, UrlQuery,
                        UrlFragment, UrlUserInfo, UrlUserName, UrlPassword})"

definition resolveUrlPlaceholder :: "resolver \<Rightarrow> string \<Rightarrow> PlaceholderType \<Rightarrow> string" where
  "resolveUrlPlaceholder r str t =
     (if str = [] then [] else if isUrlPart t then urlPart r str t else [])"

definition ResolveMaximumDepth :: int where
  "ResolveMaximumDepth = 10"

text \<open>
  \<open>Entry::resolveMultiplePlaceholdersRecursive\<close>, \<open>Entry::resolvePlaceholderRecursive\<close>
  and \<open>Entry::resolveReferencePlaceholderRecursive\<close>. The three call each other;
  the definition is accepted with the proof that every chain of calls ends: a call
  passes on a smaller depth, except the call from the second function into the
  third, which keeps the depth and is followed by a call with a smaller one.
\<close>

function resolveMultiplePlaceholdersRecursive :: "resolver \<Rightarrow> Entry \<Rightarrow> string \<Rightarrow> int \<Rightarrow> string"
  and resolvePlaceholderRecursive :: "resolver \<Rightarrow> Entry \<Rightarrow> string \<Rightarrow> int \<Rightarrow> string"
  and resolveReferencePlaceholderRecursive :: "resolver \<Rightarrow> Entry \<Rightarrow> string \<Rightarrow> int \<Rightarrow> string"
where
  "resolveMultiplePlaceholdersRecursive r e str maxDepth =
     (if maxDepth \<le> 0 then str
      else
        let result = fold (\<lambda>found result.
                             replace found (resolvePlaceholderRecursive r e found (maxDepth - 1)) result)
                       (scanPlaceholders None str) str
        in if result \<noteq> str then resolveMultiplePlaceholdersRecursive r e result (maxDepth - 1)
           else result)"
| "resolvePlaceholderRecursive r e placeholder maxDepth =
     (if maxDepth \<le> 0 then placeholder
      else
        let typeOfPlaceholder = placeholderType placeholder
        in if typeOfPlaceholder = NotPlaceholder \<or> typeOfPlaceholder = Unknown
           then resolveMultiplePlaceholdersRecursive r e placeholder (maxDepth - 1)
           else if typeOfPlaceholder = Title
           then (if placeholderType (title e) = Title then title e
                 else resolveMultiplePlaceholdersRecursive r e (title e) (maxDepth - 1))
           else if typeOfPlaceholder = UserName
           then (if placeholderType (username e) = UserName then username e
                 else resolveMultiplePlaceholdersRecursive r e (username e) (maxDepth - 1))
           else if typeOfPlaceholder = Password
           then (if placeholderType (password e) = Password then password e
                 else resolveMultiplePlaceholdersRecursive r e (password e) (maxDepth - 1))
           else if typeOfPlaceholder = Notes
           then (if placeholderType (notes' e) = Notes then notes' e
                 else resolveMultiplePlaceholdersRecursive r e (notes' e) (maxDepth - 1))
           else if typeOfPlaceholder = Url
           then (if placeholderType (url e) = Url then url e
                 else resolveMultiplePlaceholdersRecursive r e (url e) (maxDepth - 1))
           else if isUrlPart typeOfPlaceholder
           then resolveUrlPlaceholder r
                  (resolveMultiplePlaceholdersRecursive r e (url e) (maxDepth - 1)) typeOfPlaceholder
           else if typeOfPlaceholder = Totp then e_totp e
           else if typeOfPlaceholder = CustomAttribute
           then (let k = take (length placeholder - 4) (drop 3 placeholder)
                 in if e_attributes e k \<noteq> None then attributeValue e k else [])
           else resolveReferencePlaceholderRecursive r e placeholder maxDepth)"
| "resolveReferencePlaceholderRecursive r e placeholder maxDepth =
     (if maxDepth \<le> 0 then placeholder
      else
        case matchReference r placeholder of
          None \<Rightarrow> placeholder
        | Some (wantedField, searchIn, searchText) \<Rightarrow>
            (case findEntryBySearchTerm r searchText (referenceType searchIn) of
               None \<Rightarrow> []
             | Some refEntry \<Rightarrow>
                 resolveMultiplePlaceholdersRecursive r refEntry
                   (referenceFieldValue r refEntry (referenceType wantedField)) (maxDepth - 1)))"
  by pat_completeness auto
termination
  by (relation "measure (\<lambda>x. case x of
          Inl (r, e, s, d) \<Rightarrow> 2 * nat d
        | Inr (Inl (r, e, s, d)) \<Rightarrow> 2 * nat d + 1
        | Inr (Inr (r, e, s, d)) \<Rightarrow> 2 * nat d)") auto


text \<open>\<open>Entry::resolveMultiplePlaceholders\<close> and \<open>Entry::resolvePlaceholder\<close>.\<close>

definition resolveMultiplePlaceholders :: "resolver \<Rightarrow> Entry \<Rightarrow> string \<Rightarrow> string" where
  "resolveMultiplePlaceholders r e str =
     resolveMultiplePlaceholdersRecursive r e str ResolveMaximumDepth"

definition resolvePlaceholder :: "resolver \<Rightarrow> Entry \<Rightarrow> string \<Rightarrow> string" where
  "resolvePlaceholder r e placeholder =
     resolvePlaceholderRecursive r e placeholder ResolveMaximumDepth"

abbreviation resolution_terminates ::
  "resolver \<times> Entry \<times> string \<times> int + resolver \<times> Entry \<times> string \<times> int
     + resolver \<times> Entry \<times> string \<times> int \<Rightarrow> bool" where
  "resolution_terminates \<equiv>
     resolveMultiplePlaceholdersRecursive_resolvePlaceholderRecursive_resolveReferencePlaceholderRecursive_dom"


text \<open>
  The calls that the definition of the three functions records: each call site
  of the source, with the conditions on the way to it. \<open>resolution_calls a b\<close>
  says that the call \<open>a\<close> makes the call \<open>b\<close> in its body; \<open>Inl\<close> marks a call
  of \<open>resolveMultiplePlaceholdersRecursive\<close>, \<open>Inr (Inl _)\<close> one of
  \<open>resolvePlaceholderRecursive\<close> and \<open>Inr (Inr _)\<close> one of
  \<open>resolveReferencePlaceholderRecursive\<close>.
\<close>

abbreviation resolution_calls ::
  "resolver \<times> Entry \<times> string \<times> int + resolver \<times> Entry \<times> string \<times> int
     + resolver \<times> Entry \<times> string \<times> int \<Rightarrow>
   resolver \<times> Entry \<times> string \<times> int + resolver \<times> Entry \<times> string \<times> int
     + resolver \<times> Entry \<times> string \<times> int \<Rightarrow> bool" where
  "resolution_calls call inner \<equiv>
     resolveMultiplePlaceholdersRecursive_resolvePlaceholderRecursive_resolveReferencePlaceholderRecursive_rel
       inner call"


section \<open>Example values\<close>

text \<open>
  One save in which the file watcher reports a change, the commit of the
  \<open>QSaveFile\<close> and the rename of the temporary file fail, and everything else
  goes through; a database opened from \<open>/d/x.kdbx\<close>; the files on disk.
\<close>

definition exampleIo :: io where
  "exampleIo = \<lparr>hasSameFileChecksum = False, canonicalFilePath = (\<lambda>p. p),
     writer = (\<lambda>db. (None, ''new'', db\<lparr>transformedMasterKey := ''k2''\<rparr>)),
     saveFileOpen = True, saveFileCommit = False, saveFileError = ''commit failed'',
     tempFileOpen = True, tempFileName = ''/tmp/t'', tempFileError = ''rename failed'',
     backupRemove = True, backupCopy = True, targetRemove = True, tempRename = False,
     restoreRemove = True, restoreCopy = True\<rparr>"

definition exampleMetadata :: Metadata where
  "exampleMetadata = \<lparr>recycleBinEnabled = True, recycleBin = None, customIcons = Map.empty,
     historyMaxItems = 2, historyMaxSize = 10, masterKeyChanged = 0\<rparr>"

definition exampleDatabase :: Database where
  "exampleDatabase = \<lparr>filePath = ''/d/x.kdbx'', isReadOnly = False,
     transformedMasterKey = ''k1'', kdf = 0, key = Some [''pw''], hasKey = True,
     modified = True, watched = Some ''/d/x.kdbx'', deletedObjects = [], rootGroup = 0,
     metadata = exampleMetadata\<rparr>"

definition exampleFiles :: filesystem where
  "exampleFiles = [''/d/x.kdbx'' \<mapsto> ''old'']"



text \<open>
  Key classes whose derivation always fails, a store of \<open>Kdf\<close> objects, and a
  database as the constructor leaves it: no key, no file.
\<close>

definition exampleKeyenv :: keyenv where
  "exampleKeyenv = \<lparr>transform = (\<lambda>k kdf. None), freshSeed = ''s2'', currentDateTimeUtc = 7\<rparr>"

definition exampleKdfs :: kdfs where
  "exampleKdfs = (\<lambda>a. \<lparr>kdfSeed = ''s1'', kdfParameters = ''aes''\<rparr>)"

definition newDatabase :: Database where
  "newDatabase = \<lparr>filePath = [], isReadOnly = False,
     transformedMasterKey = [], kdf = 0, key = None, hasKey = False,
     modified = False, watched = None, deletedObjects = [], rootGroup = 0,
     metadata = exampleMetadata\<rparr>"

text \<open>
  Key classes whose derivation goes through, and the new database after
  \<open>changeKdf\<close> with them.
\<close>

definition derivingKeyenv :: keyenv where
  "derivingKeyenv = exampleKeyenv\<lparr>transform := (\<lambda>k kdf. Some ''k7'')\<rparr>"

definition rekeyedDatabase :: "Database \<times> kdfs" where
  "rekeyedDatabase = snd (changeKdf derivingKeyenv 1 (newDatabase, exampleKdfs))"

text \<open>
  Two databases in one world: database 1 with a root group (10) that holds the
  subgroup 11 and the entry 30, whose custom icon the database stores and whose
  history is made of the items 31, 32 and 33, oldest first; database 2
  with the empty root group 20. The second world is the same with the recycle bin
  of database 1 switched off.
\<close>

definition exampleEntry :: Entry where
  "exampleEntry = \<lparr>e_uuid = 77, e_group = Some 10, e_iconNumber = 0, e_customIcon = 5,
     e_updateTimeinfo = True, e_locationChanged = 1,
     e_attributes = [''Title'' \<mapsto> ''{PASSWORD}'', ''Password'' \<mapsto> ''secret''],
     e_tags = ''a,b;c'', e_totp = [], e_attributesSize = 4, e_associationsSize = 0,
     e_attachmentsSize = 0, e_dataSize = 0, e_history = [31, 32, 33]\<rparr>"

definition exampleHistoryItem :: Entry where
  "exampleHistoryItem = exampleEntry\<lparr>e_group := None, e_history := []\<rparr>"

definition exampleOwner :: Database where
  "exampleOwner = exampleDatabase\<lparr>rootGroup := 10,
     metadata := exampleMetadata\<lparr>customIcons := [5 \<mapsto> ''png'']\<rparr>\<rparr>"

definition exampleRootGroup :: Group where
  "exampleRootGroup = newGroup\<lparr>g_uuid := 1, g_db := Some 1, g_name := ''Root'',
     g_children := [11], g_entries := [30]\<rparr>"

definition exampleSubGroup :: Group where
  "exampleSubGroup = newGroup\<lparr>g_uuid := 3, g_parent := Some 10, g_db := Some 1, g_name := ''Mail''\<rparr>"

definition exampleWorld :: world where
  "exampleWorld = \<lparr>
     databases = [1 \<mapsto> exampleOwner, 2 \<mapsto> newDatabase\<lparr>rootGroup := 20\<rparr>],
     groups = [10 \<mapsto> exampleRootGroup, 11 \<mapsto> exampleSubGroup,
               20 \<mapsto> newGroup\<lparr>g_uuid := 2, g_db := Some 2, g_name := ''Root''\<rparr>],
     entries = [30 \<mapsto> exampleEntry, 31 \<mapsto> exampleHistoryItem,
                32 \<mapsto> exampleHistoryItem, 33 \<mapsto> exampleHistoryItem],
     nextAddress = 40, nextUuid = 100, now = 9\<rparr>"

definition exampleWorldWithoutBin :: world where
  "exampleWorldWithoutBin = exampleWorld\<lparr>databases := (databases exampleWorld)(1 \<mapsto>
     exampleOwner\<lparr>metadata := (metadata exampleOwner)\<lparr>recycleBinEnabled := False\<rparr>\<rparr>)\<rparr>"




text \<open>
  Modelled from the spec: a search and a reference syntax to run the examples
  with; Group.cpp and EntryAttributes.cpp are not part of the sources at hand. The
  search takes the first entry of the tree "whose field of that type equals
  SearchText (case-insensitive)", and a reference reads
  \<open>{REF:Field@SearchType:SearchText}\<close> with one letter for each of the two fields.
  Then four entries: the titles of \<open>alice\<close> and \<open>bob\<close> refer to each other,
  \<open>hello\<close> has bob's user name and a plain title, and the title of
  \<open>selfTitled\<close> is the title placeholder.
\<close>

definition referenceField :: "Entry \<Rightarrow> EntryReferenceType \<Rightarrow> string" where
  "referenceField e t =
     (case t of
        RefTitle \<Rightarrow> title e
      | RefUserName \<Rightarrow> username e
      | RefPassword \<Rightarrow> password e
      | RefUrl \<Rightarrow> url e
      | RefNotes \<Rightarrow> notes' e
      | _ \<Rightarrow> [])"

definition exampleResolver :: "Entry list \<Rightarrow> resolver" where
  "exampleResolver tree =
     \<lparr>findEntryBySearchTerm =
        (\<lambda>text t. find (\<lambda>e. toLower (referenceField e t) = toLower text) tree),
      matchReference =
        (\<lambda>p. if startsWith p ''{REF:'' \<and> endsWith p CHR ''}'' \<and> 10 < length p
                  \<and> p ! 6 = CHR ''@'' \<and> p ! 8 = CHR '':''
               then Some ([p ! 5], [p ! 7], take (length p - 10) (drop 9 p))
               else None),
      urlPart = (\<lambda>str t. []),
      uuidToHex = (\<lambda>u. [])\<rparr>"

definition alice :: Entry where
  "alice = exampleEntry\<lparr>e_attributes := [''Title'' \<mapsto> ''{REF:T@U:bob}'', ''UserName'' \<mapsto> ''alice'']\<rparr>"

definition bob :: Entry where
  "bob = exampleEntry\<lparr>e_attributes := [''Title'' \<mapsto> ''{REF:T@U:alice}'', ''UserName'' \<mapsto> ''bob'']\<rparr>"

definition hello :: Entry where
  "hello = exampleEntry\<lparr>e_attributes := [''Title'' \<mapsto> ''Hello'', ''UserName'' \<mapsto> ''bob'']\<rparr>"

definition selfTitled :: Entry where
  "selfTitled = exampleEntry\<lparr>e_attributes := [''Title'' \<mapsto> ''{title}'']\<rparr>"

section \<open>Properties of saving\<close>

lemmas example_defs = exampleIo_def exampleDatabase_def exampleFiles_def exampleMetadata_def
lemmas save_defs = saveAs_def performSave_def writeDatabase_def backupDatabase_def
  restoreDatabase_def QFile_remove_def QFile_copy_def QFile_rename_def backupFilePath_def
  restoreFilePath_def
  setFilePath_def markAsClean_def markAsModified_def Let_def





text \<open>
  On a path without a line feed \<open>restoreDatabase\<close> looks for the file that
  \<open>backupDatabase\<close> writes.
\<close>

lemma restoreFilePath_backupFilePath:
  "CHR 0x0A \<notin> set p \<Longrightarrow> restoreFilePath p = backupFilePath p"
proof -
  assume a: "CHR 0x0A \<notin> set p"
  have "set (take n p) \<subseteq> set p" for n by (rule set_take_subset)
  with a have "CHR 0x0A \<notin> set (take n p)" for n by blast
  with a show ?thesis by (simp add: restoreFilePath_def backupFilePath_def Let_def)
qed







lemma performSave_error_kind:
  "fst (snd (performSave env p atomic backup s)) \<noteq> Some UnmergedChanges \<and>
   fst (snd (performSave env p atomic backup s)) \<noteq> Some ReadOnlyFile"
  by (auto simp: performSave_def writeDatabase_def Let_def split: prod.splits option.splits if_splits)

text \<open>
  C1 (as amended). A save to the path the database was opened from fails, and
  changes neither the database nor any file, whenever the file watcher reports
  another checksum: with the unmerged-changes message when the database is not
  read-only, and with the read-only message when it is. When the checksum is the
  same and the database is not read-only, the check does not stop the save, which
  succeeds exactly when \<open>performSave\<close> does.
\<close>

theorem saveAs_checksum_guard:
  assumes "p = filePath db"
  shows "(\<not> hasSameFileChecksum env \<longrightarrow>
            saveAs env p atomic backup (db, fs) =
              (False, Some (if isReadOnly db then ReadOnlyFile else UnmergedChanges), db, fs)) \<and>
         (hasSameFileChecksum env \<and> \<not> isReadOnly db \<longrightarrow>
            fst (snd (saveAs env p atomic backup (db, fs))) \<noteq> Some UnmergedChanges \<and>
            fst (saveAs env p atomic backup (db, fs)) =
              fst (performSave env (if fs p \<noteq> None then canonicalFilePath env p else p)
                     atomic backup (db\<lparr>isReadOnly := False, watched := None\<rparr>, fs)))"
  using assms
    performSave_error_kind[of env "(if fs p \<noteq> None then canonicalFilePath env p else p)"
      atomic backup "(db\<lparr>isReadOnly := False, watched := None\<rparr>, fs)"]
  by (auto simp: saveAs_def Let_def split: prod.splits)

text \<open>
  C1, witness: the example database is saved to its own path, first while the
  watcher reports a change, then while it reports none and the commit fails.
\<close>

theorem saveAs_checksum_guard_witness:
  "''/d/x.kdbx'' = filePath exampleDatabase \<and> \<not> isReadOnly exampleDatabase \<and>
   \<not> hasSameFileChecksum exampleIo \<and>
   saveAs exampleIo ''/d/x.kdbx'' True False (exampleDatabase, exampleFiles) =
     (False, Some UnmergedChanges, exampleDatabase, exampleFiles) \<and>
   hasSameFileChecksum (exampleIo\<lparr>hasSameFileChecksum := True\<rparr>) \<and>
   fst (snd (saveAs (exampleIo\<lparr>hasSameFileChecksum := True\<rparr>) ''/d/x.kdbx'' True False
              (exampleDatabase, exampleFiles))) = Some (FileError ''commit failed'')"
proof -
  have h1: "''/d/x.kdbx'' = filePath exampleDatabase" by (simp add: example_defs)
  have h2: "\<not> isReadOnly exampleDatabase" by (simp add: example_defs)
  have h3: "\<not> hasSameFileChecksum exampleIo" by (simp add: example_defs)
  have h4: "fst (snd (saveAs (exampleIo\<lparr>hasSameFileChecksum := True\<rparr>) ''/d/x.kdbx'' True False
              (exampleDatabase, exampleFiles))) = Some (FileError ''commit failed'')"
    by (simp add: save_defs example_defs)
  from saveAs_checksum_guard[OF h1, of exampleIo True False exampleFiles] h1 h2 h3 h4
  show ?thesis by simp
qed

text \<open>
  C1, counterexample to the claim as stated: on a read-only database the same save
  fails with the read-only message, not with the unmerged-changes message, because
  the read-only test comes first.
\<close>

theorem saveAs_read_only_counterexample:
  "filePath (exampleDatabase\<lparr>isReadOnly := True\<rparr>) = ''/d/x.kdbx'' \<and>
   \<not> hasSameFileChecksum exampleIo \<and>
   fst (snd (saveAs exampleIo ''/d/x.kdbx'' True False
               (exampleDatabase\<lparr>isReadOnly := True\<rparr>, exampleFiles))) = Some ReadOnlyFile \<and>
   fst (snd (saveAs exampleIo ''/d/x.kdbx'' True False
               (exampleDatabase\<lparr>isReadOnly := True\<rparr>, exampleFiles))) \<noteq> Some UnmergedChanges"
  by (simp add: saveAs_def example_defs)







section \<open>Properties of the key operations\<close>

text \<open>
  C8 (as amended). When the derivation of the database's key components under
  the new configuration, with its seed drawn anew, fails, \<open>changeKdf\<close> returns
  failure. The database is then as before, but for one field: a database without
  key components holds the composite key without components; a database that had
  components is unchanged. Of the \<open>Kdf\<close> objects only the one passed in has
  changed, in its seed; that is the database's own configuration when the caller
  passes that object.
\<close>

theorem changeKdf_failure:
  assumes "transform env (case key db of None \<Rightarrow> [] | Some k \<Rightarrow> k)
             (randomizeSeed env (ks newKdf)) = None"
  shows "changeKdf env newKdf (db, ks) =
           (False, db\<lparr>key := Some (case key db of None \<Rightarrow> [] | Some k \<Rightarrow> k)\<rparr>,
            ks(newKdf := randomizeSeed env (ks newKdf))) \<and>
         (key db \<noteq> None \<longrightarrow> fst (snd (changeKdf env newKdf (db, ks))) = db)"
  using assms by (auto simp: changeKdf_def Let_def)

text \<open>
  C8, witness: the derivation fails on the example database, whose key has one
  component; the database comes back as it was and the object passed in has the
  new seed.
\<close>

theorem changeKdf_failure_witness:
  "transform exampleKeyenv [''pw''] (randomizeSeed exampleKeyenv (exampleKdfs 1)) = None \<and>
   key exampleDatabase = Some [''pw''] \<and>
   changeKdf exampleKeyenv 1 (exampleDatabase, exampleKdfs) =
     (False, exampleDatabase, exampleKdfs(1 := \<lparr>kdfSeed = ''s2'', kdfParameters = ''aes''\<rparr>))"
proof -
  have k: "key exampleDatabase = Some [''pw'']" by (simp add: exampleDatabase_def)
  have h: "transform exampleKeyenv (case key exampleDatabase of None \<Rightarrow> [] | Some k \<Rightarrow> k)
             (randomizeSeed exampleKeyenv (exampleKdfs 1)) = None"
    by (simp add: exampleKeyenv_def)
  have e: "exampleDatabase\<lparr>key := Some [''pw'']\<rparr> = exampleDatabase"
    by (simp add: exampleDatabase_def)
  have r: "randomizeSeed exampleKeyenv (exampleKdfs 1) = \<lparr>kdfSeed = ''s2'', kdfParameters = ''aes''\<rparr>"
    by (simp add: randomizeSeed_def exampleKeyenv_def exampleKdfs_def)
  from changeKdf_failure[where env = exampleKeyenv and db = exampleDatabase and ks = exampleKdfs
      and newKdf = 1, OF h] h k e r
  show ?thesis by simp
qed

text \<open>
  C8, counterexample to the claim as stated: on a database without a key the
  failed call has stored a composite key where there was none; and a failed call
  that is given the database's own \<open>Kdf\<close> object has changed the seed of the
  database's configuration.
\<close>

theorem changeKdf_failure_counterexample:
  "\<not> fst (changeKdf exampleKeyenv 1 (newDatabase, exampleKdfs)) \<and>
   key newDatabase = None \<and>
   key (fst (snd (changeKdf exampleKeyenv 1 (newDatabase, exampleKdfs)))) = Some [] \<and>
   \<not> fst (changeKdf exampleKeyenv 0 (exampleDatabase, exampleKdfs)) \<and>
   kdf exampleDatabase = 0 \<and>
   kdfSeed (exampleKdfs (kdf exampleDatabase)) = ''s1'' \<and>
   kdfSeed (snd (snd (changeKdf exampleKeyenv 0 (exampleDatabase, exampleKdfs)))
              (kdf exampleDatabase)) = ''s2''"
  by (simp add: changeKdf_def exampleKeyenv_def newDatabase_def exampleDatabase_def
        exampleKdfs_def randomizeSeed_def)

text \<open>
  C10 (as amended). \<open>setKey\<close> with \<open>transformKey = false\<close> on a database whose
  key flag is not set succeeds, sets the flag and stores the components, and
  leaves the transformed master key as it was: empty when none was derived
  before, and otherwise the bytes of the earlier derivation.
\<close>

theorem setKey_without_transform:
  assumes "\<not> hasKey db"
    and "setKey env (Some k) updateChangedTime updateTransformSalt False (db, ks) = (ok, db', ks')"
  shows "ok \<and> hasKey db' \<and> key db' = Some k \<and>
         transformedMasterKey db' = transformedMasterKey db"
  using assms by (auto simp: setKey_def Let_def markAsModified_def split: if_splits)

text \<open>
  C10, witness: a password is set on the new database without transforming; its
  transformed master key was empty and is empty.
\<close>

theorem setKey_without_transform_witness:
  "\<not> hasKey newDatabase \<and> transformedMasterKey newDatabase = [] \<and>
   setKey exampleKeyenv (Some [''pw'']) False False False (newDatabase, exampleKdfs) =
     (True, newDatabase\<lparr>key := Some [''pw''], hasKey := True\<rparr>, exampleKdfs)"
proof -
  have h1: "\<not> hasKey newDatabase" by (simp add: newDatabase_def)
  have h2: "transformedMasterKey newDatabase = []" by (simp add: newDatabase_def)
  have h3: "setKey exampleKeyenv (Some [''pw'']) False False False (newDatabase, exampleKdfs) =
     (True, newDatabase\<lparr>key := Some [''pw''], hasKey := True\<rparr>, exampleKdfs)"
    by (simp add: setKey_def newDatabase_def)
  from setKey_without_transform[OF h1 h3] h1 h2 h3 show ?thesis by simp
qed

text \<open>
  C10, counterexample to the claim as stated: \<open>changeKdf\<close> on the new database
  derives a transformed master key and leaves the key flag unset; \<open>setKey\<close>
  without transforming then succeeds and sets the flag, and the transformed
  master key holds the bytes of that derivation, not the empty marker.
\<close>

theorem setKey_without_transform_counterexample:
  "fst (changeKdf derivingKeyenv 1 (newDatabase, exampleKdfs)) \<and>
   \<not> hasKey (fst rekeyedDatabase) \<and>
   fst (setKey derivingKeyenv (Some [''pw'']) False False False rekeyedDatabase) \<and>
   hasKey (fst (snd (setKey derivingKeyenv (Some [''pw'']) False False False rekeyedDatabase))) \<and>
   transformedMasterKey
     (fst (snd (setKey derivingKeyenv (Some [''pw'']) False False False rekeyedDatabase))) = ''k7''"
  by (simp add: rekeyedDatabase_def changeKdf_def setKey_def derivingKeyenv_def exampleKeyenv_def
        newDatabase_def markAsModified_def)

section \<open>Properties of recycling and of moving entries\<close>

lemmas world_defs = exampleWorld_def exampleOwner_def exampleRootGroup_def exampleSubGroup_def
  exampleEntry_def exampleDatabase_def exampleMetadata_def newDatabase_def newGroup_def

lemma Group_update_simps [simp]:
  "databases (Group_update g f w) = databases w"
  "entries (Group_update g f w) = entries w"
  "now (Group_update g f w) = now w"
  "nextAddress (Group_update g f w) = nextAddress w"
  by (auto simp: Group_update_def split: option.splits)

lemma Group_update_groups:
  "groups (Group_update g f w) = (case groups w g of None \<Rightarrow> groups w | Some gr \<Rightarrow> (groups w)(g \<mapsto> f gr))"
  by (auto simp: Group_update_def split: option.splits)

lemma Group_database_update:
  "(\<And>gr. g_db (f gr) = g_db gr) \<Longrightarrow> Group_database (Group_update g f w) g' = Group_database w g'"
  by (auto simp: Group_database_def Group_update_groups split: option.splits)

lemma Group_removeEntry_simps [simp]:
  "databases (Group_removeEntry g e w) = databases w"
  "entries (Group_removeEntry g e w) = entries w"
  "now (Group_removeEntry g e w) = now w"
  "Group_database (Group_removeEntry g e w) g' = Group_database w g'"
  by (simp_all add: Group_removeEntry_def Group_database_update)

lemma Group_addEntry_simps [simp]:
  "databases (Group_addEntry g e w) = databases w"
  "entries (Group_addEntry g e w) = entries w"
  "now (Group_addEntry g e w) = now w"
  "Group_database (Group_addEntry g e w) g' = Group_database w g'"
  by (simp_all add: Group_addEntry_def Group_database_update)

lemma addDeletedObject_simps [simp]:
  "groups (addDeletedObject d u w) = groups w"
  "entries (addDeletedObject d u w) = entries w"
  "now (addDeletedObject d u w) = now w"
  "Group_database (addDeletedObject d u w) g = Group_database w g"
  by (auto simp: addDeletedObject_def Group_database_def split: option.splits)

lemma addDeletedObject_databases:
  "databases w d = Some db \<Longrightarrow>
   databases (addDeletedObject d u w) =
     (databases w)(d \<mapsto> db\<lparr>deletedObjects := deletedObjects db @ [\<lparr>uuid = u, deletionTime = now w\<rparr>]\<rparr>)"
  by (simp add: addDeletedObject_def)

lemma addCustomIcon_simps [simp]:
  "groups (addCustomIcon d u img w) = groups w"
  "entries (addCustomIcon d u img w) = entries w"
  "now (addCustomIcon d u img w) = now w"
  by (auto simp: addCustomIcon_def split: option.splits)

lemma addCustomIcon_deletedObjects [simp]:
  "map_option deletedObjects (databases (addCustomIcon d u img w) d') =
   map_option deletedObjects (databases w d')"
  by (auto simp: addCustomIcon_def split: option.splits)

lemma setGroup_same_database:
  assumes "entries w e = Some en" and "e_group en = Some g"
    and "groups w g = Some gr" and "groups w g2 = Some gr2" and "g_db gr2 = g_db gr"
    and "g_db gr \<noteq> None" and "g \<noteq> g2"
  shows "databases (setGroup e g2 w) = databases w"
    and "groups (setGroup e g2 w) =
           (groups w)(g \<mapsto> gr\<lparr>g_entries := removeAll e (g_entries gr)\<rparr>,
                      g2 \<mapsto> gr2\<lparr>g_entries := g_entries gr2 @ [e]\<rparr>)"
    and "map_option e_group (entries (setGroup e g2 w) e) = Some (Some g2)"
  using assms
  by (auto simp: setGroup_def Let_def Group_database_def Group_removeEntry_def Group_addEntry_def
        Group_update_def split: option.splits)

lemma createRecycleBin_result:
  assumes "databases w d = Some db" and "groups w (rootGroup db) = Some root"
    and "groups w (nextAddress w) = None"
  shows "databases (createRecycleBin d w) =
           (databases w)(d \<mapsto> db\<lparr>metadata := (metadata db)\<lparr>recycleBin := Some (nextAddress w)\<rparr>\<rparr>)"
    and "groups (createRecycleBin d w) =
           (groups w)(nextAddress w \<mapsto>
                        newGroup\<lparr>g_uuid := nextUuid w, g_parent := Some (rootGroup db),
                          g_db := g_db root, g_name := ''Recycle Bin'',
                          g_iconNumber := RecycleBinIconNumber,
                          g_searchingEnabled := Disable, g_autoTypeEnabled := Disable\<rparr>,
                      rootGroup db \<mapsto> root\<lparr>g_children := g_children root @ [nextAddress w]\<rparr>)"
    and "entries (createRecycleBin d w) = entries w"
    and "now (createRecycleBin d w) = now w"
proof -
  from assms have ne: "rootGroup db \<noteq> nextAddress w" by auto
  show "databases (createRecycleBin d w) =
           (databases w)(d \<mapsto> db\<lparr>metadata := (metadata db)\<lparr>recycleBin := Some (nextAddress w)\<rparr>\<rparr>)"
    using assms by (simp add: createRecycleBin_def Let_def setRecycleBin_def Group_setParent_def
        Group_update_groups newGroup_def split: option.splits)
  show "groups (createRecycleBin d w) =
           (groups w)(nextAddress w \<mapsto>
                        newGroup\<lparr>g_uuid := nextUuid w, g_parent := Some (rootGroup db),
                          g_db := g_db root, g_name := ''Recycle Bin'',
                          g_iconNumber := RecycleBinIconNumber,
                          g_searchingEnabled := Disable, g_autoTypeEnabled := Disable\<rparr>,
                      rootGroup db \<mapsto> root\<lparr>g_children := g_children root @ [nextAddress w]\<rparr>)"
    using assms ne by (auto simp: createRecycleBin_def Let_def setRecycleBin_def Group_setParent_def
        Group_update_def Group_database_def newGroup_def split: option.splits)
  show "entries (createRecycleBin d w) = entries w"
    using assms by (simp add: createRecycleBin_def Let_def setRecycleBin_def Group_setParent_def
        split: option.splits)
  show "now (createRecycleBin d w) = now w"
    using assms by (simp add: createRecycleBin_def Let_def setRecycleBin_def Group_setParent_def
        split: option.splits)
qed


lemma fold_delete_None:
  "m (e::nat) = None \<Longrightarrow> fold (\<lambda>h m. m(h := None)) hs m e = (None :: 'a option)"
  by (induction hs arbitrary: m) auto

lemma deleteEntry_attached:
  assumes "entries w e = Some en" and "e_group en = Some g"
    and "groups w g = Some gr" and "g_db gr = Some d" and "databases w d = Some db"
  shows "entries (deleteEntry e w) e = None"
    and "databases (deleteEntry e w) =
           (databases w)(d \<mapsto> db\<lparr>deletedObjects := deletedObjects db @ [\<lparr>uuid = e_uuid en, deletionTime = now w\<rparr>]\<rparr>)"
proof -
  show "entries (deleteEntry e w) e = None"
    using assms by (simp add: deleteEntry_def Let_def fold_delete_None split: option.splits)
  show "databases (deleteEntry e w) =
           (databases w)(d \<mapsto> db\<lparr>deletedObjects := deletedObjects db @ [\<lparr>uuid = e_uuid en, deletionTime = now w\<rparr>]\<rparr>)"
    using assms
    by (simp add: deleteEntry_def Let_def Group_database_def Group_removeEntry_def Group_update_groups
        addDeletedObject_databases)
qed

text \<open>
  C4. The entry belongs to a group of the database, which lists it, and the recycle
  bin, if there is one, belongs to the database too. With the recycle bin
  enabled, \<open>recycleEntry\<close> leaves the database with a recycle bin (the one it had,
  or else a new group under the root group with searching and auto-type disabled),
  the entry is in that group, and no tombstone is recorded in any database. With
  the recycle bin disabled the entry is gone and the tombstones of the database
  are the old ones followed by one with the entry's uuid.
\<close>

theorem recycleEntry_effect:
  assumes "databases w d = Some db"
    and "entries w e = Some en" and "e_group en = Some g"
    and "groups w g = Some gr" and "g_db gr = Some d" and "e \<in> set (g_entries gr)"
    and "groups w (rootGroup db) = Some root" and "g_db root = Some d"
    and "case recycleBin (metadata db) of
           None \<Rightarrow> groups w (nextAddress w) = None
         | Some b \<Rightarrow> Group_database w b = Some d"
  shows "if recycleBinEnabled (metadata db)
         then (\<exists>bin bg.
                 map_option (recycleBin \<circ> metadata) (databases (recycleEntry d e w) d) = Some (Some bin) \<and>
                 groups (recycleEntry d e w) bin = Some bg \<and>
                 (recycleBin (metadata db) = None \<longrightarrow>
                    g_parent bg = Some (rootGroup db) \<and>
                    (\<exists>r. groups (recycleEntry d e w) (rootGroup db) = Some r \<and> bin \<in> set (g_children r)) \<and>
                    g_searchingEnabled bg = Disable \<and> g_autoTypeEnabled bg = Disable) \<and>
                 (\<forall>b. recycleBin (metadata db) = Some b \<longrightarrow> bin = b) \<and>
                 map_option e_group (entries (recycleEntry d e w) e) = Some (Some bin) \<and>
                 e \<in> set (g_entries bg) \<and>
                 (\<forall>d'. map_option deletedObjects (databases (recycleEntry d e w) d') =
                        map_option deletedObjects (databases w d')))
         else entries (recycleEntry d e w) e = None \<and>
              map_option deletedObjects (databases (recycleEntry d e w) d) =
                Some (deletedObjects db @ [\<lparr>uuid = e_uuid en, deletionTime = now w\<rparr>]) \<and>
              (\<forall>d'. d' \<noteq> d \<longrightarrow> databases (recycleEntry d e w) d' = databases w d')"
proof (cases "recycleBinEnabled (metadata db)")
  case False
  from deleteEntry_attached[OF assms(2,3,4,5,1)] False assms(1) show ?thesis
    by (simp add: recycleEntry_def)
next
  case True
  show ?thesis
  proof (cases "recycleBin (metadata db)")
    case (Some b)
    with assms(9) obtain bg where bg: "groups w b = Some bg" "g_db bg = Some d"
      by (auto simp: Group_database_def split: option.splits)
    from True Some assms(1) have r: "recycleEntry d e w = setGroup e b w"
      by (simp add: recycleEntry_def)
    show ?thesis
    proof (cases "g = b")
      case True
      with assms(2,3) have "setGroup e b w = w" by (simp add: setGroup_def)
      with r True \<open>recycleBinEnabled (metadata db)\<close> Some assms(1,2,3,4,6) show ?thesis by auto
    next
      case False
      from setGroup_same_database[OF assms(2,3,4) bg(1) _ _ False] bg(2) assms(5)
      have "databases (setGroup e b w) = databases w"
        and "groups (setGroup e b w) =
           (groups w)(g \<mapsto> gr\<lparr>g_entries := removeAll e (g_entries gr)\<rparr>,
                      b \<mapsto> bg\<lparr>g_entries := g_entries bg @ [e]\<rparr>)"
        and "map_option e_group (entries (setGroup e b w) e) = Some (Some b)"
        by simp_all
      with r \<open>recycleBinEnabled (metadata db)\<close> Some assms(1) show ?thesis by auto
    qed
  next
    case None
    let ?bin = "nextAddress w"
    let ?w1 = "createRecycleBin d w"
    let ?bg = "newGroup\<lparr>g_uuid := nextUuid w, g_parent := Some (rootGroup db),
                 g_db := g_db root, g_name := ''Recycle Bin'', g_iconNumber := RecycleBinIconNumber,
                 g_searchingEnabled := Disable, g_autoTypeEnabled := Disable\<rparr>"
    let ?root = "root\<lparr>g_children := g_children root @ [?bin]\<rparr>"
    from None assms(9) have fresh: "groups w ?bin = None" by simp
    note cr = createRecycleBin_result[OF assms(1,7) fresh]
    from fresh assms(4,7) have ne: "g \<noteq> ?bin" "rootGroup db \<noteq> ?bin" by auto
    from True None assms(1) cr(1) have r: "recycleEntry d e w = setGroup e ?bin ?w1"
      by (simp add: recycleEntry_def)
    have e1: "entries ?w1 e = Some en" using cr(3) assms(2) by simp
    obtain gr1 where g1: "groups ?w1 g = Some gr1" "g_db gr1 = Some d"
      using cr(2) ne assms(4,5,7,8) by (cases "g = rootGroup db") auto
    have b1: "groups ?w1 ?bin = Some ?bg" using cr(2) ne by simp
    have "g_db ?bg = g_db gr1" using g1(2) assms(8) by simp
    from setGroup_same_database[OF e1 assms(3) g1(1) b1 this _ ne(1)] g1(2)
    have sg: "databases (setGroup e ?bin ?w1) = databases ?w1"
      "groups (setGroup e ?bin ?w1) =
           (groups ?w1)(g \<mapsto> gr1\<lparr>g_entries := removeAll e (g_entries gr1)\<rparr>,
                      ?bin \<mapsto> ?bg\<lparr>g_entries := g_entries ?bg @ [e]\<rparr>)"
      "map_option e_group (entries (setGroup e ?bin ?w1) e) = Some (Some ?bin)"
      by simp_all
    have root1: "\<exists>r. groups (setGroup e ?bin ?w1) (rootGroup db) = Some r \<and> ?bin \<in> set (g_children r)"
      using sg(2) cr(2) ne g1(1) by (cases "g = rootGroup db") auto
    have dels: "\<forall>d'. map_option deletedObjects (databases (setGroup e ?bin ?w1) d') =
                        map_option deletedObjects (databases w d')"
      using sg(1) cr(1) assms(1) by auto
    have "map_option (recycleBin \<circ> metadata) (databases (setGroup e ?bin ?w1) d) = Some (Some ?bin)"
      using sg(1) cr(1) by simp
    moreover have "groups (setGroup e ?bin ?w1) ?bin = Some (?bg\<lparr>g_entries := g_entries ?bg @ [e]\<rparr>)"
      using sg(2) by simp
    ultimately show ?thesis
      using True None r root1 dels sg(3) by auto
  qed
qed

text \<open>
  C4, witness: entry 30 is recycled in the example world, where the recycle bin is
  created as group 40, and in the world with the recycle bin switched off.
\<close>

theorem recycleEntry_effect_witness:
  "(\<exists>bin bg.
      map_option (recycleBin \<circ> metadata) (databases (recycleEntry 1 30 exampleWorld) 1) = Some (Some bin) \<and>
      groups (recycleEntry 1 30 exampleWorld) bin = Some bg \<and>
      g_parent bg = Some 10 \<and>
      (\<exists>r. groups (recycleEntry 1 30 exampleWorld) 10 = Some r \<and> bin \<in> set (g_children r)) \<and>
      g_searchingEnabled bg = Disable \<and> g_autoTypeEnabled bg = Disable \<and>
      map_option e_group (entries (recycleEntry 1 30 exampleWorld) 30) = Some (Some bin) \<and>
      30 \<in> set (g_entries bg) \<and>
      map_option deletedObjects (databases (recycleEntry 1 30 exampleWorld) 1) = Some []) \<and>
   entries (recycleEntry 1 30 exampleWorldWithoutBin) 30 = None \<and>
   map_option deletedObjects (databases (recycleEntry 1 30 exampleWorldWithoutBin) 1) =
     Some [\<lparr>uuid = 77, deletionTime = 9\<rparr>]"
proof -
  let ?db = "exampleOwner\<lparr>metadata := (metadata exampleOwner)\<lparr>recycleBinEnabled := False\<rparr>\<rparr>"
  have k1: "databases exampleWorldWithoutBin 1 = Some ?db"
    by (simp add: exampleWorldWithoutBin_def)
  have k2: "entries exampleWorldWithoutBin 30 = Some exampleEntry"
    by (simp add: exampleWorldWithoutBin_def exampleWorld_def)
  have k4: "groups exampleWorldWithoutBin 10 = Some exampleRootGroup"
    by (simp add: exampleWorldWithoutBin_def exampleWorld_def)
  have k7: "groups exampleWorldWithoutBin (rootGroup ?db) = Some exampleRootGroup"
    by (simp add: exampleWorldWithoutBin_def exampleWorld_def exampleOwner_def)
  have k9: "case recycleBin (metadata ?db) of
              None \<Rightarrow> groups exampleWorldWithoutBin (nextAddress exampleWorldWithoutBin) = None
            | Some b \<Rightarrow> Group_database exampleWorldWithoutBin b = Some 1"
    by (simp add: exampleWorldWithoutBin_def world_defs)
  have kv: "\<not> recycleBinEnabled (metadata ?db)" "deletedObjects ?db = []"
    "e_uuid exampleEntry = 77" "now exampleWorldWithoutBin = 9"
    by (simp_all add: exampleWorldWithoutBin_def world_defs)
  have h1: "databases exampleWorld 1 = Some exampleOwner" by (simp add: exampleWorld_def)
  have h2: "entries exampleWorld 30 = Some exampleEntry" by (simp add: exampleWorld_def)
  have h3: "e_group exampleEntry = Some 10" by (simp add: exampleEntry_def)
  have h4: "groups exampleWorld 10 = Some exampleRootGroup" by (simp add: exampleWorld_def)
  have h5: "g_db exampleRootGroup = Some 1" by (simp add: exampleRootGroup_def newGroup_def)
  have h6: "30 \<in> set (g_entries exampleRootGroup)" by (simp add: exampleRootGroup_def newGroup_def)
  have h7: "groups exampleWorld (rootGroup exampleOwner) = Some exampleRootGroup"
    by (simp add: exampleWorld_def exampleOwner_def)
  have h9: "case recycleBin (metadata exampleOwner) of
              None \<Rightarrow> groups exampleWorld (nextAddress exampleWorld) = None
            | Some b \<Rightarrow> Group_database exampleWorld b = Some 1"
    by (simp add: world_defs)
  have v: "recycleBinEnabled (metadata exampleOwner)" "recycleBin (metadata exampleOwner) = None"
    "rootGroup exampleOwner = 10" "deletedObjects exampleOwner = []"
    by (simp_all add: world_defs)
  from recycleEntry_effect[OF h1 h2 h3 h4 h5 h6 h7 h5 h9] v
  obtain bin bg where r:
    "map_option (recycleBin \<circ> metadata) (databases (recycleEntry 1 30 exampleWorld) 1) = Some (Some bin)"
    "groups (recycleEntry 1 30 exampleWorld) bin = Some bg"
    "g_parent bg = Some 10"
    "\<exists>r. groups (recycleEntry 1 30 exampleWorld) 10 = Some r \<and> bin \<in> set (g_children r)"
    "g_searchingEnabled bg = Disable" "g_autoTypeEnabled bg = Disable"
    "map_option e_group (entries (recycleEntry 1 30 exampleWorld) 30) = Some (Some bin)"
    "30 \<in> set (g_entries bg)"
    "\<forall>d'. map_option deletedObjects (databases (recycleEntry 1 30 exampleWorld) d') =
           map_option deletedObjects (databases exampleWorld d')"
    by auto
  from r(9) h1 v(4)
  have "map_option deletedObjects (databases (recycleEntry 1 30 exampleWorld) 1) = Some []"
    by simp
  moreover from recycleEntry_effect[OF k1 k2 h3 k4 h5 h6 k7 h5 k9] kv
  have "entries (recycleEntry 1 30 exampleWorldWithoutBin) 30 = None \<and>
        map_option deletedObjects (databases (recycleEntry 1 30 exampleWorldWithoutBin) 1) =
          Some [\<lparr>uuid = 77, deletionTime = 9\<rparr>]"
    by (simp add: exampleEntry_def exampleRootGroup_def newGroup_def)
  ultimately show ?thesis using r by blast
qed

text \<open>
  C9. \<open>setGroup\<close> moves an entry out of a group of database \<open>d1\<close> into a group
  of database \<open>d2\<close>. When the databases differ, a tombstone with the entry's uuid
  is appended to the tombstones of \<open>d1\<close>, and a custom icon of the entry that
  \<open>d1\<close> stores is in the icon store of \<open>d2\<close> afterwards (the image \<open>d2\<close>
  already had under that uuid, or else the image of \<open>d1\<close>). When the databases
  are the same, no database gets a tombstone.
\<close>

theorem setGroup_between_databases:
  assumes "entries w e = Some en" and "e_group en = Some g1"
    and "Group_database w g1 = Some d1" and "Group_database w g2 = Some d2"
    and "databases w d1 = Some db1" and "databases w d2 = Some db2"
  shows "if d1 \<noteq> d2
         then map_option deletedObjects (databases (setGroup e g2 w) d1) =
                Some (deletedObjects db1 @ [\<lparr>uuid = e_uuid en, deletionTime = now w\<rparr>]) \<and>
              (\<not> isNull (e_customIcon en) \<and> customIcons (metadata db1) (e_customIcon en) \<noteq> None
                 \<longrightarrow> customIcon (setGroup e g2 w) d2 (e_customIcon en) =
                       (case customIcons (metadata db2) (e_customIcon en) of
                          None \<Rightarrow> customIcons (metadata db1) (e_customIcon en)
                        | Some img \<Rightarrow> Some img))
         else (\<forall>d. map_option deletedObjects (databases (setGroup e g2 w) d) =
                    map_option deletedObjects (databases w d))"
proof (cases "d1 = d2")
  case True
  with assms show ?thesis
    by (auto simp: setGroup_def Let_def)
next
  case False
  with assms have ne: "g1 \<noteq> g2" by auto
  let ?wb = "addDeletedObject d1 (e_uuid en) (Group_removeEntry g1 e w)"
  have dbs: "databases ?wb = (databases w)(d1 \<mapsto> db1\<lparr>deletedObjects := deletedObjects db1 @ [\<lparr>uuid = e_uuid en, deletionTime = now w\<rparr>]\<rparr>)"
    using assms(5) by (simp add: addDeletedObject_databases)
  show ?thesis
    using assms False ne dbs
    by (auto simp: setGroup_def Let_def containsCustomIcon_def customIcon_def addCustomIcon_def
             split: option.splits)
qed

text \<open>
  C9, witness: entry 30 moves to the root group of database 2, and to the subgroup
  11 of its own database.
\<close>

theorem setGroup_between_databases_witness:
  "map_option deletedObjects (databases (setGroup 30 20 exampleWorld) 1) =
     Some [\<lparr>uuid = 77, deletionTime = 9\<rparr>] \<and>
   customIcon (setGroup 30 20 exampleWorld) 2 5 = Some ''png'' \<and>
   (\<forall>d. map_option deletedObjects (databases (setGroup 30 11 exampleWorld) d) =
         map_option deletedObjects (databases exampleWorld d))"
proof -
  have h1: "entries exampleWorld 30 = Some exampleEntry" by (simp add: exampleWorld_def)
  have h2: "e_group exampleEntry = Some 10" by (simp add: exampleEntry_def)
  have h3: "Group_database exampleWorld 10 = Some 1"
    by (simp add: Group_database_def world_defs)
  have h4: "Group_database exampleWorld 20 = Some 2"
    by (simp add: Group_database_def world_defs)
  have h4': "Group_database exampleWorld 11 = Some 1"
    by (simp add: Group_database_def world_defs)
  have h5: "databases exampleWorld 1 = Some exampleOwner" by (simp add: exampleWorld_def)
  have h6: "databases exampleWorld 2 = Some (newDatabase\<lparr>rootGroup := 20\<rparr>)"
    by (simp add: exampleWorld_def)
  have v: "deletedObjects exampleOwner = []" "e_uuid exampleEntry = 77" "now exampleWorld = 9"
    "e_customIcon exampleEntry = 5" "\<not> isNull 5"
    "customIcons (metadata exampleOwner) 5 = Some ''png''"
    "customIcons (metadata newDatabase) 5 = None"
    by (simp_all add: world_defs isNull_def)
  from setGroup_between_databases[OF h1 h2 h3 h4 h5 h6]
       setGroup_between_databases[OF h1 h2 h3 h4' h5 h5]
  show ?thesis by (simp add: v)
qed

section \<open>Properties of the history\<close>



















section \<open>Properties of the placeholder resolution\<close>

lemmas resolver_defs = resolveMultiplePlaceholders_def resolvePlaceholder_def
  ResolveMaximumDepth_def exampleResolver_def placeholderType_def placeholders_def toUpper_def
  toLower_def referenceType_def referenceField_def referenceFieldValue_def title_def
  username_def password_def url_def notes'_def attributeValue_def isUrlPart_def
  resolveUrlPlaceholder_def startsWith_def endsWith_def

lemma resolution_total: "resolution_terminates x"
proof -
  have "All resolution_terminates"
    by (rule "resolveMultiplePlaceholdersRecursive_resolvePlaceholderRecursive_resolveReferencePlaceholderRecursive.termination"
          [of "measure (\<lambda>x. case x of
                 Inl (r, e, s, d) \<Rightarrow> 2 * nat d
               | Inr (Inl (r, e, s, d)) \<Rightarrow> 2 * nat d + 1
               | Inr (Inr (r, e, s, d)) \<Rightarrow> 2 * nat d)"]) auto
  then show ?thesis by blast
qed

text \<open>
  C5. For every string, every entry and every tree of entries to search
  (whatever the search and the reference syntax answer, cycles included),
  \<open>resolveMultiplePlaceholders\<close> returns a string: the chain of calls it starts
  is well-founded. It starts the recursion with the depth \<open>ResolveMaximumDepth\<close>,
  which is 10, and each of the three functions, called with a depth of zero or
  less, returns its input as it is.
\<close>

theorem resolveMultiplePlaceholders_terminates:
  "resolution_terminates (Inl (r, e, str, ResolveMaximumDepth)) \<and>
   ResolveMaximumDepth = 10 \<and>
   resolveMultiplePlaceholders r e str =
     resolveMultiplePlaceholdersRecursive r e str ResolveMaximumDepth \<and>
   (\<forall>d \<le> 0. resolveMultiplePlaceholdersRecursive r e str d = str \<and>
            resolvePlaceholderRecursive r e str d = str \<and>
            resolveReferencePlaceholderRecursive r e str d = str)"
  using resolution_total[of "Inl (r, e, str, ResolveMaximumDepth)"]
  by (simp add: resolveMultiplePlaceholders_def ResolveMaximumDepth_def)

text \<open>
  C5, witness: at depth 0 the title of \<open>alice\<close> comes back unresolved; the
  titles of \<open>alice\<close> and \<open>bob\<close>, which refer to each other, resolve to a
  string at the full depth; and the reference to the title of the entry of user
  \<open>bob\<close> resolves to \<open>Hello\<close>.
\<close>

theorem resolveMultiplePlaceholders_terminates_witness:
  "(0::int) \<le> 0 \<and>
   resolveMultiplePlaceholdersRecursive (exampleResolver [alice, bob]) alice (title alice) 0 =
     title alice \<and>
   resolveMultiplePlaceholders (exampleResolver [alice, bob]) alice (title alice) =
     ''{REF:T@U:bob}'' \<and>
   resolveMultiplePlaceholders (exampleResolver [alice, hello]) alice (title alice) = ''Hello''"
proof -
  have c: "resolveMultiplePlaceholdersRecursive (exampleResolver [alice, bob]) alice (title alice) 10 =
      ''{REF:T@U:bob}''"
    by (simp add: resolver_defs exampleEntry_def alice_def bob_def Let_def)
  have h: "resolveMultiplePlaceholdersRecursive (exampleResolver [alice, hello]) alice (title alice) 10 =
      ''Hello''"
    by (simp add: resolver_defs exampleEntry_def alice_def hello_def Let_def)
  from resolveMultiplePlaceholders_terminates[of "exampleResolver [alice, bob]" alice "title alice"]
       resolveMultiplePlaceholders_terminates[of "exampleResolver [alice, hello]" alice "title alice"]
       c h
  show ?thesis by simp
qed

lemmas resolution_calls_cases =
  "resolveMultiplePlaceholdersRecursive_resolvePlaceholderRecursive_resolveReferencePlaceholderRecursive_rel.cases"
lemmas resolution_calls_intros =
  "resolveMultiplePlaceholdersRecursive_resolvePlaceholderRecursive_resolveReferencePlaceholderRecursive_rel.intros"

lemma guard_makes_no_call:
  assumes "0 < d"
    and "placeholderType p = Title \<and> placeholderType (title e) = Title \<or>
         placeholderType p = UserName \<and> placeholderType (username e) = UserName \<or>
         placeholderType p = Password \<and> placeholderType (password e) = Password \<or>
         placeholderType p = Notes \<and> placeholderType (notes' e) = Notes \<or>
         placeholderType p = Url \<and> placeholderType (url e) = Url"
  shows "\<not> resolution_calls (Inr (Inl (r, e, p, d))) c"
proof
  assume "resolution_calls (Inr (Inl (r, e, p, d))) c"
  then show False
    using assms by (cases rule: resolution_calls_cases) (auto simp: isUrlPart_def)
qed

lemma stored_value_expanded:
  assumes "0 < d"
  shows "placeholderType p = Title \<Longrightarrow> placeholderType (title e) \<noteq> Title \<Longrightarrow>
           resolution_calls (Inr (Inl (r, e, p, d))) (Inl (r, e, title e, d - 1))"
    and "placeholderType p = UserName \<Longrightarrow> placeholderType (username e) \<noteq> UserName \<Longrightarrow>
           resolution_calls (Inr (Inl (r, e, p, d))) (Inl (r, e, username e, d - 1))"
    and "placeholderType p = Password \<Longrightarrow> placeholderType (password e) \<noteq> Password \<Longrightarrow>
           resolution_calls (Inr (Inl (r, e, p, d))) (Inl (r, e, password e, d - 1))"
    and "placeholderType p = Notes \<Longrightarrow> placeholderType (notes' e) \<noteq> Notes \<Longrightarrow>
           resolution_calls (Inr (Inl (r, e, p, d))) (Inl (r, e, notes' e, d - 1))"
    and "placeholderType p = Url \<Longrightarrow> placeholderType (url e) \<noteq> Url \<Longrightarrow>
           resolution_calls (Inr (Inl (r, e, p, d))) (Inl (r, e, url e, d - 1))"
  using assms by (auto intro: resolution_calls_intros)

lemma plain_text_makes_no_call:
  assumes "scanPlaceholders None str = []"
  shows "\<not> resolution_calls (Inl (r, e, str, d)) c"
proof
  assume "resolution_calls (Inl (r, e, str, d)) c"
  then show False
    using assms by (cases rule: resolution_calls_cases) auto
qed

lemma example_placeholder_types:
  "placeholderType ''{PASSWORD}'' = Password" "placeholderType ''{TITLE}'' = Title"
  "placeholderType ''secret'' = NotPlaceholder"
  by (simp_all add: placeholderType_def placeholders_def toUpper_def startsWith_def endsWith_def)

lemma example_password_call:
  assumes "password e = ''secret''"
  shows "resolution_calls (Inr (Inl (r, e, ''{PASSWORD}'', 8))) c \<longleftrightarrow> c = Inl (r, e, ''secret'', 7)"
proof
  assume "resolution_calls (Inr (Inl (r, e, ''{PASSWORD}'', 8))) c"
  then show "c = Inl (r, e, ''secret'', 7)"
    using assms example_placeholder_types
    by (cases rule: resolution_calls_cases) (auto simp: isUrlPart_def)
next
  assume c: "c = Inl (r, e, ''secret'', 7)"
  have "placeholderType (password e) \<noteq> Password"
    using assms example_placeholder_types by simp
  from stored_value_expanded(3)[where d = 8 and p = "''{PASSWORD}''" and e = e and r = r,
      OF _ example_placeholder_types(1) this]
  show "resolution_calls (Inr (Inl (r, e, ''{PASSWORD}'', 8))) c"
    using assms c by simp
qed

text \<open>
  C7. Resolving a placeholder of the type of one of the five default fields, at a
  depth above zero: when the value stored in that field is itself a placeholder
  of that type, the call returns the stored value as it is and makes no
  recursive call at all; when it is not, the call makes the recursive call that
  expands the stored value and returns its result. An entry with the title
  \<open>{PASSWORD}\<close> and the password \<open>secret\<close> resolves \<open>{TITLE}\<close> to
  \<open>secret\<close>, and so does the call for \<open>{PASSWORD}\<close> that the expansion of the
  title makes at depth 8; that call makes one call, for the text \<open>secret\<close>,
  which makes none.
\<close>

theorem self_reference_guard:
  assumes "0 < d" and "call = Inr (Inl (r, e, p, d))"
  shows "(placeholderType p = Title \<longrightarrow>
            (if placeholderType (title e) = Title
             then resolvePlaceholderRecursive r e p d = title e \<and>
                  (\<forall>c. \<not> resolution_calls call c)
             else resolvePlaceholderRecursive r e p d =
                    resolveMultiplePlaceholdersRecursive r e (title e) (d - 1) \<and>
                  resolution_calls call (Inl (r, e, title e, d - 1)))) \<and>
         (placeholderType p = UserName \<longrightarrow>
            (if placeholderType (username e) = UserName
             then resolvePlaceholderRecursive r e p d = username e \<and>
                  (\<forall>c. \<not> resolution_calls call c)
             else resolvePlaceholderRecursive r e p d =
                    resolveMultiplePlaceholdersRecursive r e (username e) (d - 1) \<and>
                  resolution_calls call (Inl (r, e, username e, d - 1)))) \<and>
         (placeholderType p = Password \<longrightarrow>
            (if placeholderType (password e) = Password
             then resolvePlaceholderRecursive r e p d = password e \<and>
                  (\<forall>c. \<not> resolution_calls call c)
             else resolvePlaceholderRecursive r e p d =
                    resolveMultiplePlaceholdersRecursive r e (password e) (d - 1) \<and>
                  resolution_calls call (Inl (r, e, password e, d - 1)))) \<and>
         (placeholderType p = Notes \<longrightarrow>
            (if placeholderType (notes' e) = Notes
             then resolvePlaceholderRecursive r e p d = notes' e \<and>
                  (\<forall>c. \<not> resolution_calls call c)
             else resolvePlaceholderRecursive r e p d =
                    resolveMultiplePlaceholdersRecursive r e (notes' e) (d - 1) \<and>
                  resolution_calls call (Inl (r, e, notes' e, d - 1)))) \<and>
         (placeholderType p = Url \<longrightarrow>
            (if placeholderType (url e) = Url
             then resolvePlaceholderRecursive r e p d = url e \<and>
                  (\<forall>c. \<not> resolution_calls call c)
             else resolvePlaceholderRecursive r e p d =
                    resolveMultiplePlaceholdersRecursive r e (url e) (d - 1) \<and>
                  resolution_calls call (Inl (r, e, url e, d - 1)))) \<and>
         (title e = ''{PASSWORD}'' \<and> password e = ''secret'' \<longrightarrow>
            resolvePlaceholder r e ''{TITLE}'' = ''secret'' \<and>
            resolvePlaceholderRecursive r e ''{PASSWORD}'' 8 = ''secret'' \<and>
            (\<forall>c. resolution_calls (Inr (Inl (r, e, ''{PASSWORD}'', 8))) c \<longleftrightarrow>
                   c = Inl (r, e, ''secret'', 7)) \<and>
            (\<forall>c. \<not> resolution_calls (Inl (r, e, ''secret'', 7)) c))"
proof -
  note pt = example_placeholder_types
  have ex: "resolvePlaceholder r e ''{TITLE}'' = ''secret'' \<and>
            resolvePlaceholderRecursive r e ''{PASSWORD}'' 8 = ''secret''"
    if "title e = ''{PASSWORD}''" "password e = ''secret''"
    using that pt
    by (simp add: resolvePlaceholder_def ResolveMaximumDepth_def Let_def startsWith_def)
  have plain: "\<not> resolution_calls (Inl (r, e, ''secret'', 7)) c" for c
    by (rule plain_text_makes_no_call) simp
  have 1: "placeholderType p = Title \<longrightarrow>
            (if placeholderType (title e) = Title
             then resolvePlaceholderRecursive r e p d = title e \<and>
                  (\<forall>c. \<not> resolution_calls call c)
             else resolvePlaceholderRecursive r e p d =
                    resolveMultiplePlaceholdersRecursive r e (title e) (d - 1) \<and>
                  resolution_calls call (Inl (r, e, title e, d - 1)))"
    using assms guard_makes_no_call[where d = d and p = p and e = e and r = r]
      stored_value_expanded(1)[where d = d and p = p and e = e and r = r]
    by (simp add: Let_def)
  have 2: "placeholderType p = UserName \<longrightarrow>
            (if placeholderType (username e) = UserName
             then resolvePlaceholderRecursive r e p d = username e \<and>
                  (\<forall>c. \<not> resolution_calls call c)
             else resolvePlaceholderRecursive r e p d =
                    resolveMultiplePlaceholdersRecursive r e (username e) (d - 1) \<and>
                  resolution_calls call (Inl (r, e, username e, d - 1)))"
    using assms guard_makes_no_call[where d = d and p = p and e = e and r = r]
      stored_value_expanded(2)[where d = d and p = p and e = e and r = r]
    by (simp add: Let_def)
  have 3: "placeholderType p = Password \<longrightarrow>
            (if placeholderType (password e) = Password
             then resolvePlaceholderRecursive r e p d = password e \<and>
                  (\<forall>c. \<not> resolution_calls call c)
             else resolvePlaceholderRecursive r e p d =
                    resolveMultiplePlaceholdersRecursive r e (password e) (d - 1) \<and>
                  resolution_calls call (Inl (r, e, password e, d - 1)))"
    using assms guard_makes_no_call[where d = d and p = p and e = e and r = r]
      stored_value_expanded(3)[where d = d and p = p and e = e and r = r]
    by (simp add: Let_def)
  have 4: "placeholderType p = Notes \<longrightarrow>
            (if placeholderType (notes' e) = Notes
             then resolvePlaceholderRecursive r e p d = notes' e \<and>
                  (\<forall>c. \<not> resolution_calls call c)
             else resolvePlaceholderRecursive r e p d =
                    resolveMultiplePlaceholdersRecursive r e (notes' e) (d - 1) \<and>
                  resolution_calls call (Inl (r, e, notes' e, d - 1)))"
    using assms guard_makes_no_call[where d = d and p = p and e = e and r = r]
      stored_value_expanded(4)[where d = d and p = p and e = e and r = r]
    by (simp add: Let_def)
  have 5: "placeholderType p = Url \<longrightarrow>
            (if placeholderType (url e) = Url
             then resolvePlaceholderRecursive r e p d = url e \<and>
                  (\<forall>c. \<not> resolution_calls call c)
             else resolvePlaceholderRecursive r e p d =
                    resolveMultiplePlaceholdersRecursive r e (url e) (d - 1) \<and>
                  resolution_calls call (Inl (r, e, url e, d - 1)))"
    using assms guard_makes_no_call[where d = d and p = p and e = e and r = r]
      stored_value_expanded(5)[where d = d and p = p and e = e and r = r]
    by (simp add: Let_def)
  from 1 2 3 4 5 ex plain example_password_call[where e = e and r = r] show ?thesis by blast
qed

text \<open>
  C7, witness: an entry whose title is \<open>{title}\<close> resolves \<open>{TITLE}\<close> to
  that text without a recursive call, and the example entry, whose title is not
  a title placeholder, expands its title and resolves \<open>{TITLE}\<close> to its
  password.
\<close>

theorem self_reference_guard_witness:
  "(0::int) < 10 \<and> placeholderType ''{TITLE}'' = Title \<and>
   placeholderType (title selfTitled) = Title \<and>
   resolvePlaceholderRecursive (exampleResolver [selfTitled]) selfTitled ''{TITLE}'' 10 = ''{title}'' \<and>
   (\<forall>c. \<not> resolution_calls
            (Inr (Inl (exampleResolver [selfTitled], selfTitled, ''{TITLE}'', 10))) c) \<and>
   title exampleEntry = ''{PASSWORD}'' \<and> password exampleEntry = ''secret'' \<and>
   placeholderType (title exampleEntry) \<noteq> Title \<and>
   resolution_calls (Inr (Inl (exampleResolver [exampleEntry], exampleEntry, ''{TITLE}'', 10)))
     (Inl (exampleResolver [exampleEntry], exampleEntry, ''{PASSWORD}'', 9)) \<and>
   resolvePlaceholder (exampleResolver [exampleEntry]) exampleEntry ''{TITLE}'' = ''secret''"
proof -
  have h0: "(0::int) < 10" by simp
  have h1: "placeholderType ''{TITLE}'' = Title"
    by (simp add: placeholderType_def placeholders_def toUpper_def startsWith_def endsWith_def)
  have t: "title selfTitled = ''{title}''"
    by (simp add: title_def attributeValue_def selfTitled_def)
  have h2: "placeholderType (title selfTitled) = Title"
    by (simp add: t placeholderType_def placeholders_def toUpper_def startsWith_def endsWith_def)
  have h3: "title exampleEntry = ''{PASSWORD}''" "password exampleEntry = ''secret''"
    by (simp_all add: title_def password_def attributeValue_def exampleEntry_def)
  have h4: "placeholderType (title exampleEntry) \<noteq> Title"
    by (simp add: h3 placeholderType_def placeholders_def toUpper_def startsWith_def endsWith_def)
  from self_reference_guard[OF h0 refl, where r = "exampleResolver [selfTitled]" and e = selfTitled
         and p = "''{TITLE}''"]
       self_reference_guard[OF h0 refl, where r = "exampleResolver [exampleEntry]" and e = exampleEntry
         and p = "''{TITLE}''"]
       h1 h2 h3 h4 t
  show ?thesis by simp
qed

end
